theory Spec2Isabelle
  imports Complex_Main "HOL-Library.AList"
begin

section \<open>Data model\<close>

text \<open>
  The program is JavaScript. Its numbers are modelled as \<^typ>\<open>real\<close> (rounding of
  doubles is not modelled; where the program would divide by zero and go on with NaN or
  an infinity, the model's value has no meaning), its string keys as \<^typ>\<open>string\<close>, a \<^verbatim>\<open>Map\<close> as an
  association list in insertion order, an array of object references as a list of
  addresses into a store of objects. Fields that only feed rendering, sound or the
  user interface (particles, trails, animation clocks, angles, colours of enemies,
  notifications) are left out, and so are the grid indices of a defense, which nothing
  reads.
\<close>

subsection \<open>Resources: \<^verbatim>\<open>{dharma, bandwidth, anonymity}\<close>\<close>

record resources =
  dharma :: real
  bandwidth :: real
  anonymity :: real

text \<open>
  \<^verbatim>\<open>this.resources[resource]\<close>: a property read by name. A name other than the three
  properties reads \<^verbatim>\<open>undefined\<close> (\<open>None\<close>).
\<close>

definition getResource :: "resources \<Rightarrow> string \<Rightarrow> real option" where
  "getResource r k =
     (if k = ''dharma'' then Some (dharma r)
      else if k = ''bandwidth'' then Some (bandwidth r)
      else if k = ''anonymity'' then Some (anonymity r)
      else None)"

text \<open>
  \<^verbatim>\<open>this.resources[resource] = v\<close>. A write under another name adds a property to the
  object and leaves the three balances as they are.
\<close>

definition setResource :: "resources \<Rightarrow> string \<Rightarrow> real \<Rightarrow> resources" where
  "setResource r k v =
     (if k = ''dharma'' then r\<lparr>dharma := v\<rparr>
      else if k = ''bandwidth'' then r\<lparr>bandwidth := v\<rparr>
      else if k = ''anonymity'' then r\<lparr>anonymity := v\<rparr>
      else r)"

text \<open>A cost or reward object, as \<^verbatim>\<open>Object.entries\<close> lists it.\<close>

type_synonym entries = "(string \<times> real) list"

definition entriesOf :: "resources \<Rightarrow> entries" where
  "entriesOf r = [(''dharma'', dharma r), (''bandwidth'', bandwidth r), (''anonymity'', anonymity r)]"

subsection \<open>Status effects, buffs and debuffs\<close>

text \<open>
  The value stored in \<^verbatim>\<open>statusEffects\<close>, \<^verbatim>\<open>buffs\<close> and \<^verbatim>\<open>debuffs\<close>:
  \<^verbatim>\<open>{type, duration, startTime}\<close>.
\<close>

record effect =
  ef_type :: string
  ef_duration :: real
  ef_startTime :: real

type_synonym effects = "(string \<times> effect) list"

text \<open>\<^verbatim>\<open>Map.prototype.has\<close>, \<^verbatim>\<open>set\<close> and \<^verbatim>\<open>delete\<close>.\<close>

definition has :: "effects \<Rightarrow> string \<Rightarrow> bool" where
  "has m k = (map_of m k \<noteq> None)"

definition mapSet :: "effects \<Rightarrow> string \<Rightarrow> effect \<Rightarrow> effects" where
  "mapSet m k v = AList.update k v m"

definition mapDelete :: "effects \<Rightarrow> string \<Rightarrow> effects" where
  "mapDelete m k = AList.delete k m"

subsection \<open>\<^verbatim>\<open>CONFIG\<close> (config.js)\<close>

record defense_config =
  dc_cost :: resources
  dc_damage :: real
  dc_range :: real
  dc_fireRate :: real
  dc_projectileSpeed :: real
  dc_special :: string
  dc_color :: string

definition DEFENSE_TYPES :: "string \<Rightarrow> defense_config option" where
  "DEFENSE_TYPES t =
     (if t = ''firewall'' then Some \<lparr>dc_cost = \<lparr>dharma = 25, bandwidth = 0, anonymity = 0\<rparr>,
        dc_damage = 15, dc_range = 200, dc_fireRate = 1000, dc_projectileSpeed = 5, dc_special = ''basic'',
        dc_color = ''#e94560''\<rparr>
      else if t = ''encryption'' then Some \<lparr>dc_cost = \<lparr>dharma = 50, bandwidth = 20, anonymity = 10\<rparr>,
        dc_damage = 25, dc_range = 180, dc_fireRate = 1500, dc_projectileSpeed = 4, dc_special = ''encrypt'',
        dc_color = ''#0f3460''\<rparr>
      else if t = ''decoy'' then Some \<lparr>dc_cost = \<lparr>dharma = 30, bandwidth = 15, anonymity = 5\<rparr>,
        dc_damage = 0, dc_range = 150, dc_fireRate = 0, dc_projectileSpeed = 0, dc_special = ''decoy'',
        dc_color = ''#f47068''\<rparr>
      else if t = ''mirror'' then Some \<lparr>dc_cost = \<lparr>dharma = 75, bandwidth = 40, anonymity = 20\<rparr>,
        dc_damage = 40, dc_range = 250, dc_fireRate = 2000, dc_projectileSpeed = 8, dc_special = ''reflect'',
        dc_color = ''#53d8fb''\<rparr>
      else if t = ''anonymity'' then Some \<lparr>dc_cost = \<lparr>dharma = 60, bandwidth = 30, anonymity = 40\<rparr>,
        dc_damage = 20, dc_range = 300, dc_fireRate = 1200, dc_projectileSpeed = 6, dc_special = ''cloak'',
        dc_color = ''#8b5cf6''\<rparr>
      else if t = ''distributor'' then Some \<lparr>dc_cost = \<lparr>dharma = 100, bandwidth = 60, anonymity = 30\<rparr>,
        dc_damage = 30, dc_range = 350, dc_fireRate = 800, dc_projectileSpeed = 7, dc_special = ''boost'',
        dc_color = ''#10b981''\<rparr>
      else None)"

record enemy_config =
  ec_health :: real
  ec_speed :: real
  ec_reward :: resources
  ec_size :: real
  ec_special :: string

definition ENEMY_TYPES :: "string \<Rightarrow> enemy_config option" where
  "ENEMY_TYPES t =
     (if t = ''scriptKiddie'' then Some \<lparr>ec_health = 20, ec_speed = 80,
        ec_reward = \<lparr>dharma = 5, bandwidth = 2, anonymity = 1\<rparr>, ec_size = 15, ec_special = ''erratic''\<rparr>
      else if t = ''federalAgent'' then Some \<lparr>ec_health = 40, ec_speed = 60,
        ec_reward = \<lparr>dharma = 10, bandwidth = 5, anonymity = 3\<rparr>, ec_size = 18, ec_special = ''persistent''\<rparr>
      else if t = ''corporateSaboteur'' then Some \<lparr>ec_health = 35, ec_speed = 70,
        ec_reward = \<lparr>dharma = 15, bandwidth = 8, anonymity = 5\<rparr>, ec_size = 16, ec_special = ''stealth''\<rparr>
      else if t = ''aiSurveillance'' then Some \<lparr>ec_health = 60, ec_speed = 50,
        ec_reward = \<lparr>dharma = 20, bandwidth = 12, anonymity = 8\<rparr>, ec_size = 20, ec_special = ''adaptive''\<rparr>
      else if t = ''quantumHacker'' then Some \<lparr>ec_health = 80, ec_speed = 90,
        ec_reward = \<lparr>dharma = 30, bandwidth = 20, anonymity = 15\<rparr>, ec_size = 22, ec_special = ''teleport''\<rparr>
      else if t = ''corruptedMonk'' then Some \<lparr>ec_health = 100, ec_speed = 40,
        ec_reward = \<lparr>dharma = 50, bandwidth = 30, anonymity = 25\<rparr>, ec_size = 25, ec_special = ''corrupt''\<rparr>
      else None)"

text \<open>\<^verbatim>\<open>Object.keys(CONFIG.ENEMY_TYPES)\<close>, in the order of the object literal.\<close>

definition ENEMY_TYPE_KEYS :: "string list" where
  "ENEMY_TYPE_KEYS = [''scriptKiddie'', ''federalAgent'', ''corporateSaboteur'',
     ''aiSurveillance'', ''quantumHacker'', ''corruptedMonk'']"

record boss_config =
  bc_health :: real
  bc_speed :: real
  bc_reward :: resources
  bc_size :: real
  bc_phases :: real
  bc_special :: string

definition BOSS_TYPES :: "string \<Rightarrow> boss_config option" where
  "BOSS_TYPES t =
     (if t = ''raidTeam'' then Some \<lparr>bc_health = 500, bc_speed = 30,
        bc_reward = \<lparr>dharma = 100, bandwidth = 60, anonymity = 40\<rparr>, bc_size = 40, bc_phases = 3,
        bc_special = ''minions''\<rparr>
      else if t = ''megaCorpTitan'' then Some \<lparr>bc_health = 800, bc_speed = 20,
        bc_reward = \<lparr>dharma = 200, bandwidth = 120, anonymity = 80\<rparr>, bc_size = 50, bc_phases = 4,
        bc_special = ''shield''\<rparr>
      else None)"

definition WAVE_DELAY :: real where "WAVE_DELAY = 5000"
definition ENEMY_SPAWN_DELAY :: real where "ENEMY_SPAWN_DELAY = 1000"
definition INITIAL_LIVES :: real where "INITIAL_LIVES = 20"

definition INITIAL_RESOURCES :: resources where
  "INITIAL_RESOURCES = \<lparr>dharma = 100, bandwidth = 50, anonymity = 75\<rparr>"

subsection \<open>Objects\<close>

text \<open>
  \<^verbatim>\<open>class Boss extends Enemy\<close>: the fields a \<^verbatim>\<open>Boss\<close> adds to an \<^verbatim>\<open>Enemy\<close>.
\<close>

record boss_state =
  b_phases :: real
  b_currentPhase :: int
  b_phaseHealthThreshold :: real
  b_size :: real
  b_minionSpawnTimer :: real
  b_empBlastTimer :: real
  b_shieldRegenTimer :: real
  b_shieldActive :: bool
  b_shieldHealth :: real
  b_maxShieldHealth :: real

text \<open>
  An \<^verbatim>\<open>Enemy\<close> object; \<open>e_boss\<close> is \<open>Some\<close> for an instance of \<^verbatim>\<open>Boss\<close>.
  \<open>e_resistance\<close> is the object \<^verbatim>\<open>{fire, ice, electric, poison}\<close>, read by name.
\<close>

record enemy =
  e_x :: real
  e_y :: real
  e_type :: string
  e_health :: real
  e_maxHealth :: real
  e_speed :: real
  e_baseSpeed :: real
  e_damage :: real
  e_reward :: resources
  e_pathIndex :: nat
  e_progress :: real
  e_targetX :: real
  e_targetY :: real
  e_reachedEnd :: bool
  e_isDead :: bool
  e_deathTime :: real
  e_resistance :: "string \<Rightarrow> real option"
  e_specialAbilityCooldown :: real
  e_specialAbilityActive :: bool
  e_specialAbilityDuration :: real
  e_statusEffects :: effects
  e_targetPriority :: real
  e_threatLevel :: real
  e_boss :: "boss_state option"

text \<open>A reference to an enemy object is its address in the store of enemy objects.\<close>

type_synonym ref = nat

record defense =
  d_x :: real
  d_y :: real
  d_type :: string
  d_config :: defense_config
  d_level :: nat
  d_maxLevel :: nat
  d_experience :: real
  d_experienceToNextLevel :: real
  d_damage :: real
  d_range :: real
  d_fireRate :: real
  d_lastFireTime :: real
  d_target :: "ref option"
  d_specialAbilityCooldown :: real
  d_specialAbilityActive :: bool
  d_specialAbilityDuration :: real
  d_buffs :: effects
  d_debuffs :: effects
  d_isActive :: bool
  d_centerX :: real
  d_centerY :: real

record projectile =
  p_x :: real
  p_y :: real
  p_target :: "ref option"
  p_damage :: real
  p_speed :: real
  p_color :: string
  p_type :: string
  p_vx :: real
  p_vy :: real
  p_radius :: real
  p_isActive :: bool
  p_piercing :: bool
  p_homing :: bool
  p_splash :: bool
  p_splashRadius :: real
  p_piercedTargets :: "ref set"

text \<open>
  The \<^verbatim>\<open>Game\<close> object with the level's path and spawn counter. \<open>g_heap\<close> holds the
  enemy objects, \<open>g_enemies\<close> is the array \<^verbatim>\<open>game.enemies\<close> of references to them,
  \<open>g_nextRef\<close> the address that the next \<^verbatim>\<open>new Enemy\<close> gets. \<open>g_damageTrace\<close> is not a
  field of the program: it records the calls of \<^verbatim>\<open>takeDamage\<close> (receiver and amount
  passed), so that how often damage is applied can be stated.
\<close>

record game =
  g_resources :: resources
  g_lives :: real
  g_score :: real
  g_enemies :: "ref list"
  g_heap :: "ref \<Rightarrow> enemy"
  g_projectiles :: "projectile list"
  g_defenses :: "defense list"
  g_path :: "(real \<times> real) list"
  g_width :: real
  g_height :: real
  g_isGameOver :: bool
  g_enemiesSpawned :: nat
  g_nextRef :: ref
  g_damageTrace :: "(ref \<times> real) list"

section \<open>Economy (Game, in audioManager.js)\<close>

text \<open>
  \<^verbatim>\<open>addResources(resources)\<close>: adds every entry to the balance of its name.
\<close>

fun addEntries :: "resources \<Rightarrow> entries \<Rightarrow> resources" where
  "addEntries r [] = r"
| "addEntries r ((resource, amount) # rest) =
     addEntries (case getResource r resource of
                   Some b \<Rightarrow> setResource r resource (b + amount)
                 | None \<Rightarrow> r) rest"

definition addResources :: "game \<Rightarrow> entries \<Rightarrow> game" where
  "addResources g res = g\<lparr>g_resources := addEntries (g_resources g) res\<rparr>"

text \<open>
  \<^verbatim>\<open>canAfford(cost)\<close>: returns false at the first entry whose balance is smaller than
  the amount. For a name that is no balance the comparison \<^verbatim>\<open>undefined < amount\<close> is
  false and the loop goes on.
\<close>

fun affordable :: "resources \<Rightarrow> entries \<Rightarrow> bool" where
  "affordable r [] = True"
| "affordable r ((resource, amount) # rest) =
     (case getResource r resource of
        Some b \<Rightarrow> if b < amount then False else affordable r rest
      | None \<Rightarrow> affordable r rest)"

definition canAfford :: "game \<Rightarrow> entries \<Rightarrow> bool" where
  "canAfford g cost = affordable (g_resources g) cost"

text \<open>
  \<^verbatim>\<open>spendResources(cost)\<close>: \<^verbatim>\<open>this.resources[resource] -= amount\<close> for every entry,
  with no test.
\<close>

fun subtractEntries :: "resources \<Rightarrow> entries \<Rightarrow> resources" where
  "subtractEntries r [] = r"
| "subtractEntries r ((resource, amount) # rest) =
     subtractEntries (case getResource r resource of
                        Some b \<Rightarrow> setResource r resource (b - amount)
                      | None \<Rightarrow> r) rest"

definition spendResources :: "game \<Rightarrow> entries \<Rightarrow> game" where
  "spendResources g cost = g\<lparr>g_resources := subtractEntries (g_resources g) cost\<rparr>"

section \<open>Enemy (enemy.js)\<close>

text \<open>A property read of \<^verbatim>\<open>undefined\<close> or a call of a method that does not exist.\<close>

datatype error = TypeError

text \<open>
  The functions below take \<open>now\<close>, the value that \<^verbatim>\<open>Date.now()\<close> returns when they
  read the clock.
\<close>

text \<open>
  \<^verbatim>\<open>updateTarget()\<close>: the next waypoint of \<^verbatim>\<open>game.level.path\<close>, or
  \<^verbatim>\<open>reachedEnd\<close> at the last one.
\<close>

definition updateTarget :: "game \<Rightarrow> enemy \<Rightarrow> enemy" where
  "updateTarget g e =
     (let path = g_path g in
      if length path > 0 then
        (if int (e_pathIndex e) < int (length path) - 1 then
           (let i = e_pathIndex e + 1 in
            e\<lparr>e_pathIndex := i,
              e_targetX := fst (path ! i),
              e_targetY := snd (path ! i),
              e_progress := real i / (real (length path) - 1)\<rparr>)
         else e\<lparr>e_reachedEnd := True\<rparr>)
      else e)"

definition defaultResistance :: "string \<Rightarrow> real option" where
  "defaultResistance k =
     (if k = ''fire'' \<or> k = ''ice'' \<or> k = ''electric'' \<or> k = ''poison'' then Some 1 else None)"

text \<open>
  \<^verbatim>\<open>new Enemy(game, x, y, type)\<close>. For a type that \<^verbatim>\<open>CONFIG.ENEMY_TYPES\<close> does not
  list, \<^verbatim>\<open>this.config\<close> is undefined and \<^verbatim>\<open>this.config.health\<close> throws.
\<close>

definition Enemy_new :: "game \<Rightarrow> real \<Rightarrow> real \<Rightarrow> string \<Rightarrow> error + enemy" where
  "Enemy_new g x y t =
     (case ENEMY_TYPES t of
        None \<Rightarrow> Inl TypeError
      | Some config \<Rightarrow> Inr (updateTarget g
          \<lparr>e_x = x, e_y = y, e_type = t,
           e_health = ec_health config, e_maxHealth = ec_health config,
           e_speed = ec_speed config, e_baseSpeed = ec_speed config,
           e_damage = 1, e_reward = ec_reward config,
           e_pathIndex = 0, e_progress = 0, e_targetX = x, e_targetY = y,
           e_reachedEnd = False, e_isDead = False, e_deathTime = 0,
           e_resistance = defaultResistance,
           e_specialAbilityCooldown = 0, e_specialAbilityActive = False,
           e_specialAbilityDuration = 0,
           e_statusEffects = [], e_targetPriority = 0, e_threatLevel = 1,
           e_boss = None\<rparr>))"

text \<open>\<^verbatim>\<open>applyStatusEffect(effectType, duration)\<close>: \<^verbatim>\<open>this.statusEffects.set(...)\<close>.\<close>

definition applyStatusEffect :: "real \<Rightarrow> enemy \<Rightarrow> string \<Rightarrow> real \<Rightarrow> enemy" where
  "applyStatusEffect now e effectType dur =
     e\<lparr>e_statusEffects := mapSet (e_statusEffects e) effectType
          \<lparr>ef_type = effectType, ef_duration = dur, ef_startTime = now\<rparr>\<rparr>"

definition hasStatusEffect :: "enemy \<Rightarrow> string \<Rightarrow> bool" where
  "hasStatusEffect e effectType = has (e_statusEffects e) effectType"

definition removeStatusEffect :: "enemy \<Rightarrow> string \<Rightarrow> enemy" where
  "removeStatusEffect e effectType =
     e\<lparr>e_statusEffects := mapDelete (e_statusEffects e) effectType\<rparr>"

text \<open>\<^verbatim>\<open>die()\<close>.\<close>

definition die :: "real \<Rightarrow> enemy \<Rightarrow> enemy" where
  "die now e = e\<lparr>e_isDead := True, e_deathTime := now, e_statusEffects := []\<rparr>"

text \<open>
  \<^verbatim>\<open>Enemy.takeDamage(amount, damageType = 'fire')\<close>;
  \<^verbatim>\<open>this.resistance[damageType] || 1\<close> is 1 for a missing name and for the value 0.
\<close>

definition resistanceOf :: "enemy \<Rightarrow> string \<Rightarrow> real" where
  "resistanceOf e damageType =
     (case e_resistance e damageType of
        None \<Rightarrow> 1
      | Some r \<Rightarrow> if r = 0 then 1 else r)"

definition Enemy_takeDamage :: "real \<Rightarrow> enemy \<Rightarrow> real \<Rightarrow> string \<Rightarrow> enemy" where
  "Enemy_takeDamage now e amount damageType =
     (let actualDamage = amount * resistanceOf e damageType;
          e' = e\<lparr>e_health := e_health e - actualDamage\<rparr>
      in if e_health e' \<le> 0 then die now e' else e')"

section \<open>Boss (enemy.js)\<close>

text \<open>
  \<^verbatim>\<open>Boss.takeDamage(amount, damageType = 'fire')\<close>: the shield first, the rest through
  \<^verbatim>\<open>super.takeDamage\<close>.
\<close>

definition Boss_takeDamage :: "real \<Rightarrow> enemy \<Rightarrow> boss_state \<Rightarrow> real \<Rightarrow> string \<Rightarrow> enemy" where
  "Boss_takeDamage now e b amount damageType =
     (let (b', amount') =
        (if b_shieldActive b \<and> b_shieldHealth b > 0 then
           (let shieldDamage = min amount (b_shieldHealth b);
                b1 = b\<lparr>b_shieldHealth := b_shieldHealth b - shieldDamage\<rparr>;
                rest = amount - shieldDamage
            in (if b_shieldHealth b1 \<le> 0
                then b1\<lparr>b_shieldActive := False, b_shieldHealth := 0\<rparr>
                else b1, rest))
         else (b, amount));
        e' = e\<lparr>e_boss := Some b'\<rparr>
      in if amount' > 0 then Enemy_takeDamage now e' amount' damageType else e')"

text \<open>The method that a call \<^verbatim>\<open>enemy.takeDamage(...)\<close> reaches.\<close>

definition takeDamageObj :: "real \<Rightarrow> enemy \<Rightarrow> real \<Rightarrow> string \<Rightarrow> enemy" where
  "takeDamageObj now e amount damageType =
     (case e_boss e of
        None \<Rightarrow> Enemy_takeDamage now e amount damageType
      | Some b \<Rightarrow> Boss_takeDamage now e b amount damageType)"

text \<open>
  \<^verbatim>\<open>onPhaseChange()\<close>: the boss gets faster and costs more lives, its ability
  cooldown restarts.
\<close>

definition onPhaseChange :: "enemy \<Rightarrow> enemy" where
  "onPhaseChange e =
     e\<lparr>e_speed := e_speed e * 1.2,
       e_damage := of_int \<lfloor>e_damage e * 1.3\<rfloor>,
       e_specialAbilityCooldown := 0\<rparr>"

text \<open>
  \<^verbatim>\<open>updatePhases()\<close>:
  \<^verbatim>\<open>newPhase = Math.ceil((1 - this.health / this.maxHealth) * this.phases)\<close>.
  With \<^verbatim>\<open>maxHealth\<close> 0 the quotient is not a finite number; the model leaves the boss
  as it is there (for \<^verbatim>\<open>health\<close> at least 0 the comparison is false in the program too).
\<close>

definition newPhase :: "enemy \<Rightarrow> boss_state \<Rightarrow> int" where
  "newPhase e b = \<lceil>(1 - e_health e / e_maxHealth e) * b_phases b\<rceil>"

definition updatePhases :: "enemy \<Rightarrow> enemy" where
  "updatePhases e =
     (case e_boss e of
        None \<Rightarrow> e
      | Some b \<Rightarrow>
          if e_maxHealth e \<noteq> 0 \<and> newPhase e b > b_currentPhase b
          then onPhaseChange (e\<lparr>e_boss := Some (b\<lparr>b_currentPhase := newPhase e b\<rparr>)\<rparr>)
          else e)"

text \<open>
  \<^verbatim>\<open>new Boss(game, x, y, type)\<close>: \<^verbatim>\<open>super(game, x, y, type)\<close> runs the constructor of
  \<^verbatim>\<open>Enemy\<close> first, then \<^verbatim>\<open>CONFIG.BOSS_TYPES[type]\<close> is read; both tables have to list
  the type.
\<close>

definition initializeBossBehavior :: "enemy \<Rightarrow> boss_state \<Rightarrow> enemy" where
  "initializeBossBehavior e b =
     (if e_type e = ''raidTeam'' then
        e\<lparr>e_specialAbilityCooldown := 5000,
          e_boss := Some (b\<lparr>b_minionSpawnTimer := 3000, b_empBlastTimer := 8000\<rparr>)\<rparr>
      else if e_type e = ''megaCorpTitan'' then
        e\<lparr>e_specialAbilityCooldown := 4000,
          e_boss := Some (b\<lparr>b_shieldRegenTimer := 6000, b_shieldActive := True,
                            b_shieldHealth := b_maxShieldHealth b\<rparr>)\<rparr>
      else e\<lparr>e_boss := Some b\<rparr>)"

definition bossFields :: "enemy \<Rightarrow> boss_config \<Rightarrow> enemy" where
  "bossFields e bossConfig =
     initializeBossBehavior
       (e\<lparr>e_health := bc_health bossConfig, e_maxHealth := bc_health bossConfig,
          e_speed := bc_speed bossConfig, e_baseSpeed := bc_speed bossConfig,
          e_damage := 5, e_reward := bc_reward bossConfig,
          e_specialAbilityCooldown := 0, e_specialAbilityActive := False,
          e_specialAbilityDuration := 0\<rparr>)
       \<lparr>b_phases = bc_phases bossConfig, b_currentPhase = 1,
        b_phaseHealthThreshold = bc_health bossConfig / bc_phases bossConfig,
        b_size = bc_size bossConfig,
        b_minionSpawnTimer = 0, b_empBlastTimer = 0, b_shieldRegenTimer = 0,
        b_shieldActive = False, b_shieldHealth = 0, b_maxShieldHealth = 100\<rparr>"


section \<open>Utils (utils.js)\<close>

definition distance :: "real \<Rightarrow> real \<Rightarrow> real \<Rightarrow> real \<Rightarrow> real" where
  "distance x1 y1 x2 y2 = sqrt ((x2 - x1) ^ 2 + (y2 - y1) ^ 2)"

text \<open>
  \<^verbatim>\<open>circleCollision(x1, y1, r1, x2, y2, r2)\<close>. The last argument is a property read
  that may yield \<^verbatim>\<open>undefined\<close> (\<open>None\<close>); then \<^verbatim>\<open>r1 + r2\<close> is NaN and the
  comparison is false.
\<close>

definition circleCollision :: "real \<Rightarrow> real \<Rightarrow> real \<Rightarrow> real \<Rightarrow> real \<Rightarrow> real option \<Rightarrow> bool" where
  "circleCollision x1 y1 r1 x2 y2 r2 =
     (case r2 of None \<Rightarrow> False | Some r \<Rightarrow> distance x1 y1 x2 y2 < r1 + r)"

text \<open>
  \<^verbatim>\<open>CONFIG.GRID_SIZE\<close> is 40 on a window wider than 768 and 30 otherwise; the wide
  window is modelled.
\<close>

definition GRID_SIZE :: real where "GRID_SIZE = 40"

section \<open>Defense (defense.js)\<close>

text \<open>
  \<^verbatim>\<open>new Defense(game, x, y, type)\<close>: level 1 with the damage, range and fire rate of the
  configuration as they are.
\<close>

definition Defense_new :: "real \<Rightarrow> real \<Rightarrow> string \<Rightarrow> error + defense" where
  "Defense_new x y t =
     (case DEFENSE_TYPES t of
        None \<Rightarrow> Inl TypeError
      | Some config \<Rightarrow> Inr
          \<lparr>d_x = x, d_y = y, d_type = t, d_config = config,
           d_level = 1, d_maxLevel = 5, d_experience = 0, d_experienceToNextLevel = 100,
           d_damage = dc_damage config, d_range = dc_range config,
           d_fireRate = dc_fireRate config, d_lastFireTime = 0, d_target = None,
           d_specialAbilityCooldown = 0, d_specialAbilityActive = False,
           d_specialAbilityDuration = 0,
           d_buffs = [], d_debuffs = [], d_isActive = True,
           d_centerX = x + GRID_SIZE / 2, d_centerY = y + GRID_SIZE / 2\<rparr>)"

definition applyBuff :: "real \<Rightarrow> defense \<Rightarrow> string \<Rightarrow> real \<Rightarrow> defense" where
  "applyBuff now d buffType dur =
     d\<lparr>d_buffs := mapSet (d_buffs d) buffType
          \<lparr>ef_type = buffType, ef_duration = dur, ef_startTime = now\<rparr>\<rparr>"

definition removeBuff :: "defense \<Rightarrow> string \<Rightarrow> defense" where
  "removeBuff d buffType = d\<lparr>d_buffs := mapDelete (d_buffs d) buffType\<rparr>"

definition hasBuff :: "defense \<Rightarrow> string \<Rightarrow> bool" where
  "hasBuff d buffType = has (d_buffs d) buffType"

definition applyDebuff :: "real \<Rightarrow> defense \<Rightarrow> string \<Rightarrow> real \<Rightarrow> defense" where
  "applyDebuff now d debuffType dur =
     d\<lparr>d_debuffs := mapSet (d_debuffs d) debuffType
          \<lparr>ef_type = debuffType, ef_duration = dur, ef_startTime = now\<rparr>\<rparr>"

definition removeDebuff :: "defense \<Rightarrow> string \<Rightarrow> defense" where
  "removeDebuff d debuffType = d\<lparr>d_debuffs := mapDelete (d_debuffs d) debuffType\<rparr>"

definition hasDebuff :: "defense \<Rightarrow> string \<Rightarrow> bool" where
  "hasDebuff d debuffType = has (d_debuffs d) debuffType"

definition canUpgrade :: "defense \<Rightarrow> bool" where
  "canUpgrade d = (d_level d < d_maxLevel d)"

text \<open>
  \<^verbatim>\<open>addExperience(amount)\<close>: the loop raises \<^verbatim>\<open>level\<close> and touches neither
  \<^verbatim>\<open>damage\<close>, \<^verbatim>\<open>range\<close> nor \<^verbatim>\<open>fireRate\<close>.
\<close>

function levelUp :: "defense \<Rightarrow> defense" where
  "levelUp d =
     (if d_experience d \<ge> d_experienceToNextLevel d \<and> canUpgrade d then
        levelUp (d\<lparr>d_experience := d_experience d - d_experienceToNextLevel d,
                   d_experienceToNextLevel := of_int \<lfloor>d_experienceToNextLevel d * 1.5\<rfloor>,
                   d_level := d_level d + 1\<rparr>)
      else d)"
  by pat_completeness auto
termination
  by (relation "measure (\<lambda>d. d_maxLevel d - d_level d)") (auto simp: canUpgrade_def)

definition addExperience :: "defense \<Rightarrow> real \<Rightarrow> defense" where
  "addExperience d amount = levelUp (d\<lparr>d_experience := d_experience d + amount\<rparr>)"

text \<open>\<^verbatim>\<open>upgrade()\<close>: the new statistics come from the level just reached.\<close>

definition upgrade :: "defense \<Rightarrow> defense" where
  "upgrade d =
     (if \<not> canUpgrade d then d
      else
        (let l = d_level d + 1;
             d' = d\<lparr>d_level := l,
                    d_damage := of_int \<lfloor>dc_damage (d_config d) * (1 + real l * 0.2)\<rfloor>,
                    d_range := dc_range (d_config d) * (1 + real l * 0.1),
                    d_fireRate := max 200 (dc_fireRate (d_config d) * (1 - real l * 0.1))\<rparr>
         in addExperience d' 50))"

text \<open>\<^verbatim>\<open>getUpgradeCost()\<close>.\<close>

definition getUpgradeCost :: "defense \<Rightarrow> resources" where
  "getUpgradeCost d =
     (let baseCost = dharma (dc_cost (d_config d));
          multiplier = (1.5::real) ^ d_level d
      in \<lparr>dharma = of_int \<lfloor>baseCost * multiplier\<rfloor>,
          bandwidth = of_int \<lfloor>bandwidth (dc_cost (d_config d)) * multiplier * 0.5\<rfloor>,
          anonymity = of_int \<lfloor>anonymity (dc_cost (d_config d)) * multiplier * 0.3\<rfloor>\<rparr>)"

text \<open>The getters with buff and debuff modifiers.\<close>

definition getDamage :: "defense \<Rightarrow> real" where
  "getDamage d =
     (let damage = d_damage d;
          damage = (if hasBuff d ''boosted'' then damage * 1.5 else damage);
          damage = (if hasDebuff d ''weakened'' then damage * 0.7 else damage)
      in of_int \<lfloor>damage\<rfloor>)"

definition getRange :: "defense \<Rightarrow> real" where
  "getRange d =
     (let rng = d_range d;
          rng = (if hasBuff d ''boosted'' then rng * 1.2 else rng);
          rng = (if hasDebuff d ''blinded'' then rng * 0.8 else rng)
      in rng)"

definition getFireRate :: "defense \<Rightarrow> real" where
  "getFireRate d =
     (let fireRate = d_fireRate d;
          fireRate = (if hasBuff d ''boosted'' then fireRate * 0.7 else fireRate);
          fireRate = (if hasDebuff d ''slowed'' then fireRate * 1.3 else fireRate)
      in max 100 fireRate)"

definition getProjectileSpeed :: "defense \<Rightarrow> real" where
  "getProjectileSpeed d =
     (let speed = dc_projectileSpeed (d_config d)
      in if hasBuff d ''boosted'' then speed * 1.3 else speed)"

text \<open>
  \<^verbatim>\<open>loadSaveData(saveData)\<close>, the part that restores level and statistics: the same
  formula as in \<^verbatim>\<open>upgrade\<close>, applied to whatever level was saved.
\<close>

definition loadStats :: "defense \<Rightarrow> nat \<Rightarrow> defense" where
  "loadStats d l =
     d\<lparr>d_level := l,
       d_damage := of_int \<lfloor>dc_damage (d_config d) * (1 + real l * 0.2)\<rfloor>,
       d_range := dc_range (d_config d) * (1 + real l * 0.1),
       d_fireRate := max 200 (dc_fireRate (d_config d) * (1 - real l * 0.1))\<rparr>"

text \<open>\<^verbatim>\<open>isValidTarget(target)\<close>: a live enemy within \<^verbatim>\<open>this.range\<close>.\<close>

definition isValidTarget :: "game \<Rightarrow> defense \<Rightarrow> ref option \<Rightarrow> bool" where
  "isValidTarget g d target =
     (case target of
        None \<Rightarrow> False
      | Some r \<Rightarrow>
          if e_isDead (g_heap g r) then False
          else distance (d_centerX d) (d_centerY d) (e_x (g_heap g r)) (e_y (g_heap g r))
                 \<le> d_range d)"

text \<open>
  \<^verbatim>\<open>Defense.findBestTarget()\<close>: the loop over \<^verbatim>\<open>game.enemies\<close> with the best
  reference and score so far; \<open>None\<close> is the initial score \<^verbatim>\<open>-Infinity\<close>. An enemy
  with \<^verbatim>\<open>maxHealth\<close> 0 has no finite score and is passed over.
\<close>

definition targetScore :: "defense \<Rightarrow> enemy \<Rightarrow> real \<Rightarrow> real" where
  "targetScore d enemy dst =
     0 + e_progress enemy * 100
       + (1 - e_health enemy / e_maxHealth enemy) * 50
       + e_speed enemy * 0.5
       + (d_range d - dst) * 0.1"

definition better :: "real \<Rightarrow> real option \<Rightarrow> bool" where
  "better score bestScore = (case bestScore of None \<Rightarrow> True | Some b \<Rightarrow> score > b)"

fun bestTargetLoop :: "game \<Rightarrow> defense \<Rightarrow> ref list \<Rightarrow> ref option \<times> real option \<Rightarrow> ref option \<times> real option" where
  "bestTargetLoop g d [] best = best"
| "bestTargetLoop g d (r # rs) (bestTarget, bestScore) =
     (let enemy = g_heap g r;
          dst = distance (d_centerX d) (d_centerY d) (e_x enemy) (e_y enemy)
      in if dst \<le> d_range d \<and> e_maxHealth enemy \<noteq> 0
            \<and> better (targetScore d enemy dst) bestScore
         then bestTargetLoop g d rs (Some r, Some (targetScore d enemy dst))
         else bestTargetLoop g d rs (bestTarget, bestScore))"

definition findBestTarget :: "game \<Rightarrow> defense \<Rightarrow> ref option" where
  "findBestTarget g d = fst (bestTargetLoop g d (g_enemies g) (None, None))"

text \<open>
  \<^verbatim>\<open>updateTargeting()\<close>, without the turning of the turret: a decoy keeps its target
  field, any other defense looks for a target when it has none or an invalid one.
\<close>

definition updateTargeting :: "game \<Rightarrow> defense \<Rightarrow> defense" where
  "updateTargeting g d =
     (if dc_special (d_config d) = ''decoy'' then d
      else if d_target d = None \<or> \<not> isValidTarget g d (d_target d)
           then d\<lparr>d_target := findBestTarget g d\<rparr>
           else d)"

section \<open>DefenseManager (saveSystem.js)\<close>

text \<open>
  \<^verbatim>\<open>DefenseManager.findBestTarget(defense)\<close>: the same loop with the range of
  \<^verbatim>\<open>getRange()\<close> and the reward in the score.
\<close>

definition managerScore :: "real \<Rightarrow> enemy \<Rightarrow> real \<Rightarrow> real" where
  "managerScore rng enemy dst =
     0 + e_progress enemy * 100
       + (1 - e_health enemy / e_maxHealth enemy) * 50
       + e_speed enemy * 0.5
       + dharma (e_reward enemy) * 2
       + (rng - dst) * 0.1"

fun managerLoop :: "game \<Rightarrow> defense \<Rightarrow> ref list \<Rightarrow> ref option \<times> real option \<Rightarrow> ref option \<times> real option" where
  "managerLoop g d [] best = best"
| "managerLoop g d (r # rs) (bestTarget, bestScore) =
     (let enemy = g_heap g r;
          rng = getRange d;
          dst = distance (d_x d + GRID_SIZE / 2) (d_y d + GRID_SIZE / 2) (e_x enemy) (e_y enemy)
      in if dst \<le> rng \<and> e_maxHealth enemy \<noteq> 0
            \<and> better (managerScore rng enemy dst) bestScore
         then managerLoop g d rs (Some r, Some (managerScore rng enemy dst))
         else managerLoop g d rs (bestTarget, bestScore))"

definition DefenseManager_findBestTarget :: "game \<Rightarrow> defense \<Rightarrow> ref option" where
  "DefenseManager_findBestTarget g d = fst (managerLoop g d (g_enemies g) (None, None))"

section \<open>Projectile (Projectile.js)\<close>

text \<open>
  \<^verbatim>\<open>enemy.radius\<close>, as \<^verbatim>\<open>Projectile.checkCollisions\<close> and
  \<^verbatim>\<open>Game.checkProjectileCollisions\<close> read it. Neither \<^verbatim>\<open>Enemy\<close> nor \<^verbatim>\<open>Boss\<close> has a
  property of that name (the size is \<^verbatim>\<open>config.size\<close>, for a boss \<^verbatim>\<open>size\<close>), so the
  read yields \<^verbatim>\<open>undefined\<close>.
\<close>

definition radiusOf :: "enemy \<Rightarrow> real option" where
  "radiusOf e = None"

text \<open>\<^verbatim>\<open>updateVelocity()\<close>: towards the target, if there is a live one.\<close>

definition updateVelocity :: "game \<Rightarrow> projectile \<Rightarrow> projectile" where
  "updateVelocity g p =
     (case p_target p of
        None \<Rightarrow> p
      | Some t \<Rightarrow>
          if e_isDead (g_heap g t) then p
          else
            (let dx = e_x (g_heap g t) - p_x p;
                 dy = e_y (g_heap g t) - p_y p;
                 dst = sqrt (dx * dx + dy * dy)
             in if dst > 0
                then p\<lparr>p_vx := (dx / dst) * p_speed p, p_vy := (dy / dst) * p_speed p\<rparr>
                else p))"

text \<open>\<^verbatim>\<open>initializeSpecialProperties()\<close>.\<close>

definition initializeSpecialProperties :: "projectile \<Rightarrow> projectile" where
  "initializeSpecialProperties p =
     (if p_type p = ''firewall'' then p\<lparr>p_radius := 4\<rparr>
      else if p_type p = ''encryption'' then
        p\<lparr>p_speed := p_speed p * 0.8, p_piercing := True, p_radius := 3,
          p_color := ''#0f3460''\<rparr>
      else if p_type p = ''mirror'' then
        p\<lparr>p_speed := p_speed p * 1.2, p_radius := 5, p_color := ''#53d8fb''\<rparr>
      else if p_type p = ''anonymity'' then
        p\<lparr>p_homing := True, p_radius := 3, p_color := ''#8b5cf6''\<rparr>
      else if p_type p = ''distributor'' then
        p\<lparr>p_splash := True, p_splashRadius := 50, p_radius := 6, p_color := ''#10b981''\<rparr>
      else p)"

text \<open>\<^verbatim>\<open>new Projectile(game, x, y, target, damage, speed, color, type)\<close>.\<close>

definition Projectile_new ::
  "game \<Rightarrow> real \<Rightarrow> real \<Rightarrow> ref option \<Rightarrow> real \<Rightarrow> real \<Rightarrow> string \<Rightarrow> string \<Rightarrow> projectile" where
  "Projectile_new g x y target damage speed color t =
     updateVelocity g (initializeSpecialProperties
       \<lparr>p_x = x, p_y = y, p_target = target, p_damage = damage, p_speed = speed,
        p_color = color, p_type = t, p_vx = 0, p_vy = 0, p_radius = 4,
        p_isActive = True, p_piercing = False, p_homing = False, p_splash = False,
        p_splashRadius = 0, p_piercedTargets = {}\<rparr>)"

text \<open>
  \<^verbatim>\<open>Projectile.applyBuff(buffType, duration)\<close>: a switch with four cases and no
  default.
\<close>

definition Projectile_applyBuff :: "projectile \<Rightarrow> string \<Rightarrow> real \<Rightarrow> projectile" where
  "Projectile_applyBuff p buffType dur =
     (if buffType = ''speed'' then p\<lparr>p_speed := p_speed p * 1.5\<rparr>
      else if buffType = ''damage'' then p\<lparr>p_damage := p_damage p * 1.5\<rparr>
      else if buffType = ''piercing'' then p\<lparr>p_piercing := True\<rparr>
      else if buffType = ''homing'' then p\<lparr>p_homing := True\<rparr>
      else p)"

text \<open>
  \<^verbatim>\<open>Defense.encryptAllProjectiles()\<close> (defense.js): the special ability of the
  encryption defense, over \<^verbatim>\<open>game.projectiles\<close>.
\<close>

definition encryptAllProjectiles :: "game \<Rightarrow> game" where
  "encryptAllProjectiles g =
     g\<lparr>g_projectiles := map (\<lambda>p. Projectile_applyBuff p ''encrypted'' 3000) (g_projectiles g)\<rparr>"

text \<open>
  A call \<^verbatim>\<open>enemy.takeDamage(amount)\<close> on the object at a reference; the damage type is
  the default \<^verbatim>\<open>'fire'\<close>. The call is recorded in the trace.
\<close>

definition takeDamage :: "real \<Rightarrow> game \<Rightarrow> ref \<Rightarrow> real \<Rightarrow> game" where
  "takeDamage now g r amount =
     g\<lparr>g_heap := (g_heap g)(r := takeDamageObj now (g_heap g r) amount ''fire''),
       g_damageTrace := g_damageTrace g @ [(r, amount)]\<rparr>"

text \<open>
  \<^verbatim>\<open>applySplashDamage()\<close>: half the damage to every enemy of \<^verbatim>\<open>game.enemies\<close> other
  than the target within \<^verbatim>\<open>splashRadius\<close> of the projectile.
\<close>

fun splashLoop :: "real \<Rightarrow> projectile \<Rightarrow> ref list \<Rightarrow> game \<Rightarrow> game" where
  "splashLoop now p [] g = g"
| "splashLoop now p (r # rs) g =
     (if Some r = p_target p then splashLoop now p rs g
      else if distance (p_x p) (p_y p) (e_x (g_heap g r)) (e_y (g_heap g r)) \<le> p_splashRadius p
           then splashLoop now p rs (takeDamage now g r (p_damage p * 0.5))
           else splashLoop now p rs g)"

definition applySplashDamage :: "real \<Rightarrow> game \<Rightarrow> projectile \<Rightarrow> game" where
  "applySplashDamage now g p = splashLoop now p (g_enemies g) g"

text \<open>\<^verbatim>\<open>Projectile.boostNearbyDefenses()\<close>.\<close>

definition Projectile_boostNearbyDefenses :: "real \<Rightarrow> game \<Rightarrow> projectile \<Rightarrow> game" where
  "Projectile_boostNearbyDefenses now g p =
     g\<lparr>g_defenses := map (\<lambda>d.
          if distance (p_x p) (p_y p) (d_centerX d) (d_centerY d) \<le> 100
          then applyBuff now d ''boosted'' 1000 else d) (g_defenses g)\<rparr>"

text \<open>
  \<^verbatim>\<open>applySpecialEffects()\<close>, called by \<^verbatim>\<open>hit\<close> with a target. The mirror case only
  draws particles.
\<close>

definition applySpecialEffects :: "real \<Rightarrow> game \<Rightarrow> projectile \<Rightarrow> ref \<Rightarrow> game" where
  "applySpecialEffects now g p t =
     (if p_type p = ''encryption'' then
        g\<lparr>g_heap := (g_heap g)(t := applyStatusEffect now (g_heap g t) ''scrambled'' 1000)\<rparr>
      else if p_type p = ''anonymity'' then
        g\<lparr>g_heap := (g_heap g)(t := applyStatusEffect now (g_heap g t) ''stealthed'' 500)\<rparr>
      else if p_type p = ''distributor'' then Projectile_boostNearbyDefenses now g p
      else g)"

text \<open>\<^verbatim>\<open>hit()\<close>.\<close>

definition hit :: "real \<Rightarrow> game \<Rightarrow> projectile \<Rightarrow> projectile \<times> game" where
  "hit now g p =
     (case p_target p of
        None \<Rightarrow> (p, g)
      | Some t \<Rightarrow>
          if e_isDead (g_heap g t) then (p, g)
          else if p_piercing p \<and> t \<in> p_piercedTargets p then (p, g)
          else
            (let g1 = takeDamage now g t (p_damage p);
                 p1 = (if p_piercing p
                       then p\<lparr>p_piercedTargets := insert t (p_piercedTargets p)\<rparr> else p);
                 g2 = (if p_splash p1 then applySplashDamage now g1 p1 else g1);
                 g3 = applySpecialEffects now g2 p1 t;
                 p2 = (if \<not> p_piercing p1 then p1\<lparr>p_isActive := False\<rparr> else p1)
             in (p2, g3)))"

text \<open>
  \<^verbatim>\<open>findNewTarget()\<close>: for a homing projectile the nearest live enemy; \<open>None\<close> as
  nearest distance is \<^verbatim>\<open>Infinity\<close>.
\<close>

fun nearestLoop :: "game \<Rightarrow> projectile \<Rightarrow> ref list \<Rightarrow> ref option \<times> real option \<Rightarrow> ref option \<times> real option" where
  "nearestLoop g p [] nearest = nearest"
| "nearestLoop g p (r # rs) (nearestEnemy, nearestDistance) =
     (if e_isDead (g_heap g r) then nearestLoop g p rs (nearestEnemy, nearestDistance)
      else
        (let dst = distance (p_x p) (p_y p) (e_x (g_heap g r)) (e_y (g_heap g r))
         in if (case nearestDistance of None \<Rightarrow> True | Some n \<Rightarrow> dst < n)
            then nearestLoop g p rs (Some r, Some dst)
            else nearestLoop g p rs (nearestEnemy, nearestDistance)))"

definition findNewTarget :: "game \<Rightarrow> projectile \<Rightarrow> projectile" where
  "findNewTarget g p =
     (if \<not> p_homing p then p
      else p\<lparr>p_target := fst (nearestLoop g p (g_enemies g) (None, None))\<rparr>)"

text \<open>
  \<^verbatim>\<open>checkCollisions()\<close>: \<^verbatim>\<open>distance <= this.target.radius + this.radius\<close>, false
  when the radius of the target is undefined.
\<close>

definition checkCollisions :: "real \<Rightarrow> game \<Rightarrow> projectile \<Rightarrow> projectile \<times> game" where
  "checkCollisions now g p =
     (case p_target p of
        None \<Rightarrow> (findNewTarget g p, g)
      | Some t \<Rightarrow>
          if e_isDead (g_heap g t) then (findNewTarget g p, g)
          else
            (case radiusOf (g_heap g t) of
               None \<Rightarrow> (p, g)
             | Some tr \<Rightarrow>
                 if distance (p_x p) (p_y p) (e_x (g_heap g t)) (e_y (g_heap g t))
                      \<le> tr + p_radius p
                 then hit now g p else (p, g)))"

definition checkBounds :: "game \<Rightarrow> projectile \<Rightarrow> projectile" where
  "checkBounds g p =
     (let margin = 50 in
      if p_x p < - margin \<or> p_x p > g_width g + margin \<or>
         p_y p < - margin \<or> p_y p > g_height g + margin
      then p\<lparr>p_isActive := False\<rparr> else p)"

text \<open>\<^verbatim>\<open>Projectile.update(deltaTime)\<close>, without trail and particles.\<close>

definition Projectile_update :: "real \<Rightarrow> real \<Rightarrow> game \<Rightarrow> projectile \<Rightarrow> projectile \<times> game" where
  "Projectile_update now deltaTime g p =
     (if \<not> p_isActive p then (p, g)
      else
        (let p1 = (if p_homing p \<and> (case p_target p of None \<Rightarrow> False
                                     | Some t \<Rightarrow> \<not> e_isDead (g_heap g t))
                   then updateVelocity g p else p);
             p2 = p1\<lparr>p_x := p_x p1 + p_vx p1 * deltaTime * 0.001,
                     p_y := p_y p1 + p_vy p1 * deltaTime * 0.001\<rparr>;
             (p3, g') = checkCollisions now g p2
         in (checkBounds g' p3, g')))"

section \<open>Game (audioManager.js)\<close>

text \<open>
  \<^verbatim>\<open>checkProjectileCollisions(projectile)\<close>: at the first enemy of \<^verbatim>\<open>game.enemies\<close>
  that collides, \<^verbatim>\<open>enemy.takeDamage(projectile.damage)\<close>, then \<^verbatim>\<open>projectile.hit()\<close>,
  then \<^verbatim>\<open>break\<close>.
\<close>

fun collisionLoop :: "real \<Rightarrow> game \<Rightarrow> projectile \<Rightarrow> ref list \<Rightarrow> projectile \<times> game" where
  "collisionLoop now g p [] = (p, g)"
| "collisionLoop now g p (r # rs) =
     (let enemy = g_heap g r in
      if circleCollision (p_x p) (p_y p) (p_radius p) (e_x enemy) (e_y enemy) (radiusOf enemy)
      then hit now (takeDamage now g r (p_damage p)) p
      else collisionLoop now g p rs)"

definition checkProjectileCollisions :: "real \<Rightarrow> game \<Rightarrow> projectile \<Rightarrow> projectile \<times> game" where
  "checkProjectileCollisions now g p = collisionLoop now g p (g_enemies g)"

section \<open>Enemy: the update of one tick (enemy.js)\<close>

text \<open>
  The functions of this section work on the enemy object at a reference of the store.
  \<open>rnd k\<close> is the value of the \<open>k\<close>-th call of \<^verbatim>\<open>Math.random()\<close> during the update of
  the enemy.
\<close>

definition setEnemy :: "game \<Rightarrow> ref \<Rightarrow> enemy \<Rightarrow> game" where
  "setEnemy g r e = g\<lparr>g_heap := (g_heap g)(r := e)\<rparr>"

text \<open>
  \<^verbatim>\<open>updateStatusEffects(deltaTime)\<close>: every duration goes down by \<^verbatim>\<open>deltaTime\<close>, an
  entry at or below 0 is deleted. Buffs and debuffs of a defense are updated alike.
\<close>

definition tickEffects :: "real \<Rightarrow> effects \<Rightarrow> effects" where
  "tickEffects deltaTime m =
     filter (\<lambda>(k, v). \<not> ef_duration v \<le> 0)
       (map (\<lambda>(k, v). (k, v\<lparr>ef_duration := ef_duration v - deltaTime\<rparr>)) m)"

text \<open>
  \<^verbatim>\<open>updateSpecialAbilities(deltaTime)\<close>. Neither \<^verbatim>\<open>Enemy\<close> nor \<^verbatim>\<open>Boss\<close> defines
  \<^verbatim>\<open>deactivateSpecialAbility\<close>, so the call throws.
\<close>

definition updateSpecialAbilities :: "real \<Rightarrow> enemy \<Rightarrow> error + enemy" where
  "updateSpecialAbilities deltaTime e =
     (let e1 = (if e_specialAbilityActive e
                then e\<lparr>e_specialAbilityDuration := e_specialAbilityDuration e - deltaTime\<rparr>
                else e)
      in if e_specialAbilityActive e \<and> e_specialAbilityDuration e1 \<le> 0 then Inl TypeError
         else if e_specialAbilityCooldown e1 > 0
              then Inr (e1\<lparr>e_specialAbilityCooldown := e_specialAbilityCooldown e1 - deltaTime\<rparr>)
              else Inr e1)"

text \<open>
  \<^verbatim>\<open>updateNormalMovement(deltaTime, speed)\<close>: towards the waypoint, or on to the next
  one within 2 units of it.
\<close>

definition updateNormalMovement :: "game \<Rightarrow> real \<Rightarrow> real \<Rightarrow> enemy \<Rightarrow> enemy" where
  "updateNormalMovement g deltaTime speed e =
     (let dx = e_targetX e - e_x e;
          dy = e_targetY e - e_y e;
          dst = sqrt (dx * dx + dy * dy)
      in if dst > 2
         then e\<lparr>e_x := e_x e + (dx / dst) * speed * deltaTime * 0.001,
                e_y := e_y e + (dy / dst) * speed * deltaTime * 0.001\<rparr>
         else updateTarget g e)"

definition updateErraticMovement :: "game \<Rightarrow> (nat \<Rightarrow> real) \<Rightarrow> real \<Rightarrow> real \<Rightarrow> enemy \<Rightarrow> enemy" where
  "updateErraticMovement g rnd deltaTime speed e =
     (let randomX = (rnd 0 - 0.5) * speed * 0.3;
          randomY = (rnd 1 - 0.5) * speed * 0.3;
          e1 = updateNormalMovement g deltaTime speed e
      in e1\<lparr>e_x := e_x e1 + randomX * deltaTime * 0.001,
            e_y := e_y e1 + randomY * deltaTime * 0.001\<rparr>)"

text \<open>
  \<^verbatim>\<open>DefenseManager.getNearestDefense(x, y, maxRange)\<close> and \<^verbatim>\<open>getDefensesInRange\<close>;
  the array of the manager holds the same defenses as \<^verbatim>\<open>game.defenses\<close>.
\<close>

fun nearestDefenseLoop :: "real \<Rightarrow> real \<Rightarrow> defense list \<Rightarrow> defense option \<times> real \<Rightarrow> defense option \<times> real" where
  "nearestDefenseLoop x y [] nearest = nearest"
| "nearestDefenseLoop x y (d # ds) (nearest, nearestDistance) =
     (let dst = distance x y (d_x d + GRID_SIZE / 2) (d_y d + GRID_SIZE / 2)
      in if dst < nearestDistance then nearestDefenseLoop x y ds (Some d, dst)
         else nearestDefenseLoop x y ds (nearest, nearestDistance))"

definition getNearestDefense :: "game \<Rightarrow> real \<Rightarrow> real \<Rightarrow> real \<Rightarrow> defense option" where
  "getNearestDefense g x y maxRange = fst (nearestDefenseLoop x y (g_defenses g) (None, maxRange))"

definition getDefensesInRange :: "game \<Rightarrow> real \<Rightarrow> real \<Rightarrow> real \<Rightarrow> defense list" where
  "getDefensesInRange g x y rng =
     filter (\<lambda>d. distance x y (d_x d + GRID_SIZE / 2) (d_y d + GRID_SIZE / 2) \<le> rng)
       (g_defenses g)"

definition updatePersistentMovement :: "game \<Rightarrow> real \<Rightarrow> real \<Rightarrow> enemy \<Rightarrow> enemy" where
  "updatePersistentMovement g deltaTime speed e =
     (let currentSpeed = (if getNearestDefense g (e_x e) (e_y e) 200 \<noteq> None
                          then speed * 1.5 else speed)
      in updateNormalMovement g deltaTime currentSpeed e)"

text \<open>
  \<^verbatim>\<open>updateStealthMovement(deltaTime, speed)\<close>: an enemy that is not stealthed draws a
  number and becomes stealthed for 2000 ms below 0.01.
\<close>

definition updateStealthMovement :: "game \<Rightarrow> real \<Rightarrow> (nat \<Rightarrow> real) \<Rightarrow> real \<Rightarrow> real \<Rightarrow> enemy \<Rightarrow> enemy" where
  "updateStealthMovement g now rnd deltaTime speed e =
     updateNormalMovement g deltaTime speed
       (if \<not> has (e_statusEffects e) ''stealthed'' \<and> rnd 0 < 0.01
        then applyStatusEffect now e ''stealthed'' 2000 else e)"

fun avoidLoop :: "enemy \<Rightarrow> defense list \<Rightarrow> real \<times> real \<Rightarrow> real \<times> real" where
  "avoidLoop e [] avoid = avoid"
| "avoidLoop e (d # ds) (avoidX, avoidY) =
     (let dx = e_x e - d_centerX d;
          dy = e_y e - d_centerY d;
          dst = sqrt (dx * dx + dy * dy)
      in if dst > 0
         then avoidLoop e ds (avoidX + (dx / dst) * (200 / dst), avoidY + (dy / dst) * (200 / dst))
         else avoidLoop e ds (avoidX, avoidY))"

definition updateAdaptiveMovement :: "game \<Rightarrow> real \<Rightarrow> real \<Rightarrow> enemy \<Rightarrow> enemy" where
  "updateAdaptiveMovement g deltaTime speed e =
     (let nearbyDefenses = getDefensesInRange g (e_x e) (e_y e) 300;
          e1 = (if length nearbyDefenses > 0
                then (let (avoidX, avoidY) = avoidLoop e nearbyDefenses (0, 0)
                      in e\<lparr>e_x := e_x e + avoidX * deltaTime * 0.001,
                            e_y := e_y e + avoidY * deltaTime * 0.001\<rparr>)
                else e)
      in updateNormalMovement g deltaTime speed e1)"

text \<open>\<^verbatim>\<open>Level.getPathLength()\<close> and \<^verbatim>\<open>Level.getPathPosition(progress)\<close> (utils.js).\<close>

fun getPathLength :: "(real \<times> real) list \<Rightarrow> real" where
  "getPathLength (a # b # rest) =
     distance (fst a) (snd a) (fst b) (snd b) + getPathLength (b # rest)"
| "getPathLength path = 0"

fun pathPositionLoop :: "(real \<times> real) list \<Rightarrow> real \<Rightarrow> real \<Rightarrow> real \<times> real" where
  "pathPositionLoop (a # b # rest) targetLength currentLength =
     (let segmentLength = distance (fst a) (snd a) (fst b) (snd b)
      in if currentLength + segmentLength \<ge> targetLength
         then (let t = (targetLength - currentLength) / segmentLength
               in (fst a + (fst b - fst a) * t, snd a + (snd b - snd a) * t))
         else pathPositionLoop (b # rest) targetLength (currentLength + segmentLength))"
| "pathPositionLoop [a] targetLength currentLength = a"
| "pathPositionLoop [] targetLength currentLength = (0, 0)"

definition getPathPosition :: "game \<Rightarrow> real \<Rightarrow> real \<times> real" where
  "getPathPosition g progress =
     (if length (g_path g) = 0 then (0, 0)
      else pathPositionLoop (g_path g) (getPathLength (g_path g) * progress) 0)"

definition updateQuantumMovement :: "game \<Rightarrow> (nat \<Rightarrow> real) \<Rightarrow> real \<Rightarrow> real \<Rightarrow> enemy \<Rightarrow> enemy" where
  "updateQuantumMovement g rnd deltaTime speed e =
     (if rnd 0 < 0.005
      then (let pathPosition = getPathPosition g (e_progress e + 0.1)
            in e\<lparr>e_x := fst pathPosition, e_y := snd pathPosition\<rparr>)
      else updateNormalMovement g deltaTime speed e)"

text \<open>
  \<^verbatim>\<open>updateCorruptedMovement(deltaTime, speed)\<close>: the monk moves at 70% speed, heals the
  other corrupted monks of \<^verbatim>\<open>game.enemies\<close> within 100 and corrupts the defenses
  within 80.
\<close>

fun healLoop :: "real \<Rightarrow> ref \<Rightarrow> ref list \<Rightarrow> game \<Rightarrow> game" where
  "healLoop deltaTime r [] g = g"
| "healLoop deltaTime r (r' # rs) g =
     (let this = g_heap g r; enemy = g_heap g r'
      in if r' \<noteq> r \<and> e_type enemy = ''corruptedMonk''
            \<and> distance (e_x this) (e_y this) (e_x enemy) (e_y enemy) \<le> 100
         then healLoop deltaTime r rs
                (setEnemy g r' (enemy\<lparr>e_health :=
                   min (e_maxHealth enemy) (e_health enemy + deltaTime * 0.01)\<rparr>))
         else healLoop deltaTime r rs g)"

definition updateCorruptedMovement :: "real \<Rightarrow> real \<Rightarrow> real \<Rightarrow> game \<Rightarrow> ref \<Rightarrow> game" where
  "updateCorruptedMovement now deltaTime speed g r =
     (let g1 = setEnemy g r (updateNormalMovement g deltaTime (speed * 0.7) (g_heap g r));
          g2 = healLoop deltaTime r (g_enemies g1) g1;
          this = g_heap g2 r
      in g2\<lparr>g_defenses := map (\<lambda>d.
              if distance (e_x this) (e_y this) (d_centerX d) (d_centerY d) \<le> 80
              then applyDebuff now d ''corrupted'' 1000 else d) (g_defenses g2)\<rparr>)"

text \<open>\<^verbatim>\<open>updateMovement(deltaTime)\<close>: the speed modifiers, then the movement of the type.\<close>

definition updateMovement :: "real \<Rightarrow> (nat \<Rightarrow> real) \<Rightarrow> real \<Rightarrow> game \<Rightarrow> ref \<Rightarrow> game" where
  "updateMovement now rnd deltaTime g r =
     (let e = g_heap g r in
      if e_reachedEnd e then g
      else
        (let currentSpeed = e_speed e;
             currentSpeed = (if has (e_statusEffects e) ''slowed''
                             then currentSpeed * 0.5 else currentSpeed);
             currentSpeed = (if has (e_statusEffects e) ''hasted''
                             then currentSpeed * 1.5 else currentSpeed)
         in if e_type e = ''scriptKiddie''
              then setEnemy g r (updateErraticMovement g rnd deltaTime currentSpeed e)
            else if e_type e = ''federalAgent''
              then setEnemy g r (updatePersistentMovement g deltaTime currentSpeed e)
            else if e_type e = ''corporateSaboteur''
              then setEnemy g r (updateStealthMovement g now rnd deltaTime currentSpeed e)
            else if e_type e = ''aiSurveillance''
              then setEnemy g r (updateAdaptiveMovement g deltaTime currentSpeed e)
            else if e_type e = ''quantumHacker''
              then setEnemy g r (updateQuantumMovement g rnd deltaTime currentSpeed e)
            else if e_type e = ''corruptedMonk''
              then updateCorruptedMovement now deltaTime currentSpeed g r
            else setEnemy g r (updateNormalMovement g deltaTime currentSpeed e)))"

definition updateAI :: "enemy \<Rightarrow> enemy" where
  "updateAI e =
     e\<lparr>e_targetPriority := e_progress e * 100 + (1 - e_health e / e_maxHealth e) * 50
          + e_speed e * 0.5 + dharma (e_reward e) * 2,
       e_threatLevel := 1 + (e_maxHealth e / 20) + (e_speed e / 50)\<rparr>"

text \<open>
  \<^verbatim>\<open>checkEndReached()\<close>: an enemy with \<^verbatim>\<open>reachedEnd\<close> takes its \<^verbatim>\<open>damage\<close> from the
  lives and is marked dead.
\<close>

definition checkEndReached :: "real \<Rightarrow> game \<Rightarrow> ref \<Rightarrow> game" where
  "checkEndReached now g r =
     (let e = g_heap g r in
      if e_reachedEnd e
      then setEnemy (g\<lparr>g_lives := g_lives g - e_damage e\<rparr>) r
             (e\<lparr>e_isDead := True, e_deathTime := now\<rparr>)
      else g)"

text \<open>\<^verbatim>\<open>Enemy.update(deltaTime)\<close>, without animation, trail and particles.\<close>

definition Enemy_update :: "real \<Rightarrow> (nat \<Rightarrow> real) \<Rightarrow> real \<Rightarrow> game \<Rightarrow> ref \<Rightarrow> error + game" where
  "Enemy_update now rnd deltaTime g r =
     (let e = g_heap g r in
      if e_isDead e then Inr g
      else
        (case updateSpecialAbilities deltaTime
                (e\<lparr>e_statusEffects := tickEffects deltaTime (e_statusEffects e)\<rparr>) of
           Inl err \<Rightarrow> Inl err
         | Inr e2 \<Rightarrow>
             (let g1 = updateMovement now rnd deltaTime (setEnemy g r e2) r;
                  g2 = setEnemy g1 r (updateAI (g_heap g1 r))
              in Inr (checkEndReached now g2 r))))"

section \<open>Boss: the update of one tick (enemy.js)\<close>

text \<open>
  \<^verbatim>\<open>spawnMinions()\<close>: \<^verbatim>\<open>3 + currentPhase\<close> script kiddies on a circle of radius 50
  around the boss, each a new object appended to \<^verbatim>\<open>game.enemies\<close>.
\<close>

fun minionLoop :: "ref \<Rightarrow> int \<Rightarrow> nat \<Rightarrow> nat \<Rightarrow> game \<Rightarrow> error + game" where
  "minionLoop r minionCount i 0 g = Inr g"
| "minionLoop r minionCount i (Suc n) g =
     (let angle = (pi * 2 * real i) / real_of_int minionCount;
          spawnX = e_x (g_heap g r) + cos angle * 50;
          spawnY = e_y (g_heap g r) + sin angle * 50
      in case Enemy_new g spawnX spawnY ''scriptKiddie'' of
           Inl err \<Rightarrow> Inl err
         | Inr minion \<Rightarrow>
             minionLoop r minionCount (i + 1) n
               (g\<lparr>g_heap := (g_heap g)(g_nextRef g :=
                      minion\<lparr>e_health := 15, e_maxHealth := 15, e_speed := 60\<rparr>),
                   g_enemies := g_enemies g @ [g_nextRef g],
                   g_nextRef := g_nextRef g + 1\<rparr>))"

definition spawnMinions :: "game \<Rightarrow> ref \<Rightarrow> boss_state \<Rightarrow> error + game" where
  "spawnMinions g r b =
     (let minionCount = 3 + b_currentPhase b
      in minionLoop r minionCount 0 (nat minionCount) g)"

definition performEMPBlast :: "real \<Rightarrow> game \<Rightarrow> ref \<Rightarrow> game" where
  "performEMPBlast now g r =
     g\<lparr>g_defenses := map (\<lambda>d.
          if distance (e_x (g_heap g r)) (e_y (g_heap g r)) (d_centerX d) (d_centerY d) \<le> 200
          then applyDebuff now d ''emp'' 3000 else d) (g_defenses g)\<rparr>"

definition regenerateShield :: "boss_state \<Rightarrow> boss_state" where
  "regenerateShield b =
     b\<lparr>b_shieldActive := True,
       b_shieldHealth := min (b_maxShieldHealth b) (b_shieldHealth b + 50)\<rparr>"

definition performMarketManipulation :: "game \<Rightarrow> game" where
  "performMarketManipulation g =
     (let res = g_resources g;
          stolenDharma = of_int \<lfloor>dharma res * 0.1\<rfloor>;
          stolenBandwidth = of_int \<lfloor>bandwidth res * 0.1\<rfloor>;
          stolenAnonymity = of_int \<lfloor>anonymity res * 0.1\<rfloor>
      in g\<lparr>g_resources :=
           \<lparr>dharma = max 0 (dharma res - stolenDharma),
            bandwidth = max 0 (bandwidth res - stolenBandwidth),
            anonymity = max 0 (anonymity res - stolenAnonymity)\<rparr>\<rparr>)"

definition setBoss :: "game \<Rightarrow> ref \<Rightarrow> boss_state \<Rightarrow> game" where
  "setBoss g r b = setEnemy g r ((g_heap g r)\<lparr>e_boss := Some b\<rparr>)"

definition updateRaidTeamBehavior :: "real \<Rightarrow> real \<Rightarrow> game \<Rightarrow> ref \<Rightarrow> boss_state \<Rightarrow> error + game" where
  "updateRaidTeamBehavior now deltaTime g r b =
     (case (if b_minionSpawnTimer b > 0
            then Inr (setBoss g r (b\<lparr>b_minionSpawnTimer := b_minionSpawnTimer b - deltaTime\<rparr>))
            else (case spawnMinions g r b of
                    Inl err \<Rightarrow> Inl err
                  | Inr g' \<Rightarrow> Inr (setBoss g' r (b\<lparr>b_minionSpawnTimer := 5000\<rparr>)))) of
        Inl err \<Rightarrow> Inl err
      | Inr g1 \<Rightarrow>
          (case e_boss (g_heap g1 r) of
             None \<Rightarrow> Inr g1
           | Some b1 \<Rightarrow>
               if b_empBlastTimer b1 > 0
               then Inr (setBoss g1 r (b1\<lparr>b_empBlastTimer := b_empBlastTimer b1 - deltaTime\<rparr>))
               else Inr (setBoss (performEMPBlast now g1 r) r (b1\<lparr>b_empBlastTimer := 10000\<rparr>))))"

definition updateMegaCorpTitanBehavior :: "(nat \<Rightarrow> real) \<Rightarrow> real \<Rightarrow> game \<Rightarrow> ref \<Rightarrow> boss_state \<Rightarrow> game" where
  "updateMegaCorpTitanBehavior rnd deltaTime g r b =
     (let g1 = (if b_shieldRegenTimer b > 0
                then setBoss g r (b\<lparr>b_shieldRegenTimer := b_shieldRegenTimer b - deltaTime\<rparr>)
                else setBoss g r ((regenerateShield b)\<lparr>b_shieldRegenTimer := 8000\<rparr>))
      in if rnd 0 < 0.01 then performMarketManipulation g1 else g1)"

definition updateBossBehavior :: "real \<Rightarrow> (nat \<Rightarrow> real) \<Rightarrow> real \<Rightarrow> game \<Rightarrow> ref \<Rightarrow> boss_state \<Rightarrow> error + game" where
  "updateBossBehavior now rnd deltaTime g r b =
     (if e_type (g_heap g r) = ''raidTeam'' then updateRaidTeamBehavior now deltaTime g r b
      else if e_type (g_heap g r) = ''megaCorpTitan''
           then Inr (updateMegaCorpTitanBehavior rnd deltaTime g r b)
           else Inr g)"

text \<open>\<^verbatim>\<open>Boss.update(deltaTime)\<close>, without animation, trail and particles.\<close>

definition Boss_update :: "real \<Rightarrow> (nat \<Rightarrow> real) \<Rightarrow> real \<Rightarrow> game \<Rightarrow> ref \<Rightarrow> error + game" where
  "Boss_update now rnd deltaTime g r =
     (let e = g_heap g r in
      if e_isDead e then Inr g
      else
        (case updateSpecialAbilities deltaTime
                (updatePhases (e\<lparr>e_statusEffects := tickEffects deltaTime (e_statusEffects e)\<rparr>)) of
           Inl err \<Rightarrow> Inl err
         | Inr e2 \<Rightarrow>
             (let g1 = updateMovement now rnd deltaTime (setEnemy g r e2) r
              in case e_boss (g_heap g1 r) of
                   None \<Rightarrow> Inr (checkEndReached now g1 r)
                 | Some b \<Rightarrow>
                     (case updateBossBehavior now rnd deltaTime g1 r b of
                        Inl err \<Rightarrow> Inl err
                      | Inr g2 \<Rightarrow> Inr (checkEndReached now g2 r)))))"

text \<open>The method that a call \<^verbatim>\<open>enemy.update(deltaTime)\<close> reaches.\<close>

definition updateObj :: "real \<Rightarrow> (nat \<Rightarrow> real) \<Rightarrow> real \<Rightarrow> game \<Rightarrow> ref \<Rightarrow> error + game" where
  "updateObj now rnd deltaTime g r =
     (case e_boss (g_heap g r) of
        None \<Rightarrow> Enemy_update now rnd deltaTime g r
      | Some b \<Rightarrow> Boss_update now rnd deltaTime g r)"

section \<open>Game: enemies of one tick (audioManager.js)\<close>

text \<open>
  \<^verbatim>\<open>onEnemyKilled(enemy)\<close>: the reward is added to the resources, the score grows by
  \<^verbatim>\<open>enemy.scoreValue || 10\<close>, which is 10 as no enemy has a \<^verbatim>\<open>scoreValue\<close>. The call
  of \<^verbatim>\<open>checkAchievement('enemiesKilled', ...)\<close> names no achievement and does nothing.
\<close>

definition onEnemyKilled :: "game \<Rightarrow> enemy \<Rightarrow> game" where
  "onEnemyKilled g enemy =
     (addResources g (entriesOf (e_reward enemy)))\<lparr>g_score := g_score g + 10\<rparr>"

text \<open>\<^verbatim>\<open>onEnemyReachedEnd(enemy)\<close>: one life less, game over at 0.\<close>

definition onEnemyReachedEnd :: "game \<Rightarrow> enemy \<Rightarrow> game" where
  "onEnemyReachedEnd g enemy =
     (let g1 = g\<lparr>g_lives := g_lives g - 1\<rparr>
      in if g_lives g1 \<le> 0 then g1\<lparr>g_isGameOver := True\<rparr> else g1)"

text \<open>\<^verbatim>\<open>this.enemies.splice(i, 1)\<close>.\<close>

definition splice :: "nat \<Rightarrow> 'a list \<Rightarrow> 'a list" where
  "splice i xs = take i xs @ drop (Suc i) xs"

text \<open>
  \<^verbatim>\<open>updateEnemies(deltaTime)\<close>: the loop runs from the last index down to 0; the first
  argument of \<open>enemiesLoop\<close> is the number of indices still to visit. \<open>rnd i k\<close> is the
  value of the \<open>k\<close>-th call of \<^verbatim>\<open>Math.random()\<close> during the update of the enemy at
  index \<open>i\<close>. An exception leaves the loop; the model then returns the error alone.
\<close>

fun enemiesLoop :: "nat \<Rightarrow> real \<Rightarrow> (nat \<Rightarrow> nat \<Rightarrow> real) \<Rightarrow> real \<Rightarrow> game \<Rightarrow> error + game" where
  "enemiesLoop 0 now rnd deltaTime g = Inr g"
| "enemiesLoop (Suc i) now rnd deltaTime g =
     (let r = g_enemies g ! i in
      case updateObj now (rnd i) deltaTime g r of
        Inl err \<Rightarrow> Inl err
      | Inr g1 \<Rightarrow>
          (let enemy = g_heap g1 r in
           if e_isDead enemy then
             enemiesLoop i now rnd deltaTime
               ((onEnemyKilled g1 enemy)\<lparr>g_enemies := splice i (g_enemies g1)\<rparr>)
           else if e_reachedEnd enemy then
             enemiesLoop i now rnd deltaTime
               ((onEnemyReachedEnd g1 enemy)\<lparr>g_enemies := splice i (g_enemies g1)\<rparr>)
           else enemiesLoop i now rnd deltaTime g1))"

definition updateEnemies :: "real \<Rightarrow> (nat \<Rightarrow> nat \<Rightarrow> real) \<Rightarrow> real \<Rightarrow> game \<Rightarrow> error + game" where
  "updateEnemies now rnd deltaTime g = enemiesLoop (length (g_enemies g)) now rnd deltaTime g"

section \<open>Level (utils.js)\<close>

text \<open>
  An enemy group of a wave configuration; \<^verbatim>\<open>health\<close> is absent (\<open>None\<close>) in the swarm
  group of a boss wave.
\<close>

record enemy_group =
  gr_type :: string
  gr_count :: int
  gr_delay :: real
  gr_health :: "real option"

record wave_config =
  w_wave :: nat
  w_enemies :: "enemy_group list"
  w_delayBetweenWaves :: real
  w_bossWave :: bool

text \<open>
  The inner loop of a regular wave \<open>i\<close> over \<^verbatim>\<open>Object.keys(CONFIG.ENEMY_TYPES)\<close>, at
  index \<open>j\<close>. Every iteration calls \<^verbatim>\<open>Math.random()\<close> once, also for a type that is
  then left out; \<open>rnd k\<close> is the value of the \<open>k\<close>-th call since the start of
  \<^verbatim>\<open>generateWaveConfigs\<close>, and the number of calls made is returned with the groups.
\<close>

fun regularGroups :: "(nat \<Rightarrow> real) \<Rightarrow> nat \<Rightarrow> nat \<Rightarrow> string list \<Rightarrow> nat \<Rightarrow> enemy_group list \<times> nat" where
  "regularGroups rnd i j [] k = ([], k)"
| "regularGroups rnd i j (enemyType # rest) k =
     (let difficulty = real i / 10;
          baseCount = \<lfloor>3 + real i * 0.5\<rfloor>;
          variance = \<lfloor>real i * 0.3\<rfloor>;
          count = baseCount + \<lfloor>rnd k * of_int variance\<rfloor>;
          (groups, k') = regularGroups rnd i (j + 1) rest (k + 1)
      in if int j \<le> \<lfloor>difficulty * real (length ENEMY_TYPE_KEYS)\<rfloor>
         then (\<lparr>gr_type = enemyType, gr_count = max 1 count, gr_delay = ENEMY_SPAWN_DELAY,
                 gr_health = Some (1 + difficulty * 0.5)\<rparr> # groups, k')
         else (groups, k'))"

definition bossWaveConfig :: "nat \<Rightarrow> wave_config" where
  "bossWaveConfig i =
     \<lparr>w_wave = i,
      w_enemies =
        [\<lparr>gr_type = (if i \<le> 10 then ''raidTeam'' else ''megaCorpTitan''), gr_count = 1,
          gr_delay = 2000, gr_health = Some (1 + (real i - 5) * 0.2)\<rparr>,
         \<lparr>gr_type = ''scriptKiddie'', gr_count = 5 + int i, gr_delay = 500,
          gr_health = None\<rparr>],
      w_delayBetweenWaves = WAVE_DELAY, w_bossWave = True\<rparr>"

text \<open>The outer loop over the waves \<open>i\<close> = 1, ..., \<^verbatim>\<open>maxWaves\<close>.\<close>

fun waveLoop :: "(nat \<Rightarrow> real) \<Rightarrow> nat list \<Rightarrow> nat \<Rightarrow> wave_config list" where
  "waveLoop rnd [] k = []"
| "waveLoop rnd (i # rest) k =
     (if i mod 5 = 0 then bossWaveConfig i # waveLoop rnd rest k
      else
        (let (groups, k') = regularGroups rnd i 0 ENEMY_TYPE_KEYS k
         in \<lparr>w_wave = i, w_enemies = groups, w_delayBetweenWaves = WAVE_DELAY,
              w_bossWave = False\<rparr> # waveLoop rnd rest k'))"

definition maxWaves :: nat where "maxWaves = 20"

definition generateWaveConfigs :: "(nat \<Rightarrow> real) \<Rightarrow> wave_config list" where
  "generateWaveConfigs rnd = waveLoop rnd [1 ..< maxWaves + 1] 0"


section \<open>Defense: firing (defense.js)\<close>

text \<open>
  \<^verbatim>\<open>scrambleNearbyEnemies()\<close> calls \<^verbatim>\<open>enemy.applyDebuff\<close>, a method that enemies do
  not have: the call throws at the first enemy within half the range.
\<close>

definition scrambleNearbyEnemies :: "game \<Rightarrow> defense \<Rightarrow> error + game" where
  "scrambleNearbyEnemies g d =
     (if list_ex (\<lambda>r. distance (d_centerX d) (d_centerY d) (e_x (g_heap g r)) (e_y (g_heap g r))
                        \<le> d_range d * 0.5) (g_enemies g)
      then Inl TypeError else Inr g)"

text \<open>
  \<^verbatim>\<open>cloakNearbyDefenses()\<close> and \<^verbatim>\<open>boostNearbyDefenses()\<close> of the defense at index \<open>i\<close>
  of \<^verbatim>\<open>game.defenses\<close>: a buff for every other defense within a share of the range.
\<close>

definition buffOthers :: "real \<Rightarrow> game \<Rightarrow> nat \<Rightarrow> real \<Rightarrow> string \<Rightarrow> real \<Rightarrow> game" where
  "buffOthers now g i rng buffType dur =
     (let this = g_defenses g ! i in
      g\<lparr>g_defenses := map (\<lambda>(j, d).
           if j \<noteq> i \<and> distance (d_centerX this) (d_centerY this) (d_centerX d) (d_centerY d) \<le> rng
           then applyBuff now d buffType dur else d)
         (enumerate 0 (g_defenses g))\<rparr>)"

definition applyFireEffects :: "real \<Rightarrow> game \<Rightarrow> nat \<Rightarrow> error + game" where
  "applyFireEffects now g i =
     (let d = g_defenses g ! i in
      if d_type d = ''encryption'' then scrambleNearbyEnemies g d
      else if d_type d = ''anonymity'' then Inr (buffOthers now g i (d_range d * 0.7) ''cloaked'' 3000)
      else if d_type d = ''distributor'' then Inr (buffOthers now g i (d_range d * 0.8) ''boosted'' 2000)
      else Inr g)"

text \<open>
  \<^verbatim>\<open>fire()\<close> of the defense at index \<open>i\<close>: a projectile from the centre of the defense
  at its target, then the effects of the type.
\<close>

definition fire :: "real \<Rightarrow> game \<Rightarrow> nat \<Rightarrow> error + game" where
  "fire now g i =
     (let d = g_defenses g ! i in
      if d_target d = None then Inr g
      else applyFireEffects now
             (g\<lparr>g_projectiles := g_projectiles g @
                  [Projectile_new g (d_centerX d) (d_centerY d) (d_target d) (getDamage d)
                     (getProjectileSpeed d) (dc_color (d_config d)) (d_type d)]\<rparr>) i)"

text \<open>
  \<^verbatim>\<open>updateFiring(deltaTime)\<close> of the defense at index \<open>i\<close>:
  \<^verbatim>\<open>currentTime = Date.now()\<close> is compared with \<^verbatim>\<open>lastFireTime\<close> and stored in it
  after a shot. \<^verbatim>\<open>deltaTime\<close> is not used.
\<close>

definition updateFiring :: "real \<Rightarrow> real \<Rightarrow> game \<Rightarrow> nat \<Rightarrow> error + game" where
  "updateFiring now deltaTime g i =
     (let d = g_defenses g ! i in
      if dc_special (d_config d) = ''decoy'' then Inr g
      else
        (let currentTime = now; fireRate = getFireRate d in
         if d_target d \<noteq> None \<and> isValidTarget g d (d_target d)
            \<and> currentTime - d_lastFireTime d \<ge> fireRate
         then (case fire now g i of
                 Inl err \<Rightarrow> Inl err
               | Inr g' \<Rightarrow>
                   Inr (g'\<lparr>g_defenses := (g_defenses g')[i :=
                          (g_defenses g' ! i)\<lparr>d_lastFireTime := currentTime\<rparr>]\<rparr>))
         else Inr g))"

section \<open>Observations used in the statements\<close>

text \<open>The remaining duration of an effect kind, if the kind is present.\<close>

definition durationOf :: "effects \<Rightarrow> string \<Rightarrow> real option" where
  "durationOf m k = map_option ef_duration (map_of m k)"





text \<open>
  For a defense and an enemy reference: whether the enemy is within \<^verbatim>\<open>this.range\<close> of
  the centre of the defense, and the score that \<^verbatim>\<open>Defense.findBestTarget\<close> gives it.
\<close>

definition inRange :: "game \<Rightarrow> defense \<Rightarrow> ref \<Rightarrow> bool" where
  "inRange g d r =
     (distance (d_centerX d) (d_centerY d) (e_x (g_heap g r)) (e_y (g_heap g r)) \<le> d_range d)"

definition scoreOf :: "game \<Rightarrow> defense \<Rightarrow> ref \<Rightarrow> real" where
  "scoreOf g d r =
     targetScore d (g_heap g r)
       (distance (d_centerX d) (d_centerY d) (e_x (g_heap g r)) (e_y (g_heap g r)))"

section \<open>The lifetime of a projectile\<close>

text \<open>
  What can happen to a projectile \<open>p\<close> in a game \<open>g\<close> between its creation and its
  removal, in any order and any number of times: a call of \<^verbatim>\<open>hit()\<close>, its update of a
  tick, the collision check of the game, the \<^verbatim>\<open>encrypted\<close> buff (the only buff the
  program applies to projectiles), a new target, and any change of the rest of the game
  that applies no damage on behalf of this projectile (the trace stays as it is).
\<close>

inductive lifetime :: "projectile \<times> game \<Rightarrow> projectile \<times> game \<Rightarrow> bool" where
  created: "lifetime s s"
| hits: "lifetime s (p, g) \<Longrightarrow> lifetime s (hit now g p)"
| updates: "lifetime s (p, g) \<Longrightarrow> lifetime s (Projectile_update now deltaTime g p)"
| collides: "lifetime s (p, g) \<Longrightarrow> lifetime s (checkProjectileCollisions now g p)"
| buffed: "lifetime s (p, g) \<Longrightarrow> lifetime s (Projectile_applyBuff p ''encrypted'' 3000, g)"
| retargets: "lifetime s (p, g) \<Longrightarrow> lifetime s (p\<lparr>p_target := target\<rparr>, g)"
| others: "lifetime s (p, g) \<Longrightarrow> g_damageTrace g' = g_damageTrace g \<Longrightarrow> lifetime s (p, g')"

section \<open>Sample objects\<close>

text \<open>
  The content of an address of the store at which no enemy has been created, and
  \<^verbatim>\<open>new Game()\<close> before the level exists: the initial balances and lives, empty arrays,
  the canvas of a wide window.
\<close>

definition unallocated :: enemy where
  "unallocated =
     \<lparr>e_x = 0, e_y = 0, e_type = [], e_health = 0, e_maxHealth = 0, e_speed = 0,
      e_baseSpeed = 0, e_damage = 0,
      e_reward = \<lparr>dharma = 0, bandwidth = 0, anonymity = 0\<rparr>,
      e_pathIndex = 0, e_progress = 0, e_targetX = 0, e_targetY = 0,
      e_reachedEnd = False, e_isDead = True, e_deathTime = 0,
      e_resistance = defaultResistance,
      e_specialAbilityCooldown = 0, e_specialAbilityActive = False,
      e_specialAbilityDuration = 0,
      e_statusEffects = [], e_targetPriority = 0, e_threatLevel = 0, e_boss = None\<rparr>"

definition Game_new :: game where
  "Game_new =
     \<lparr>g_resources = INITIAL_RESOURCES, g_lives = INITIAL_LIVES, g_score = 0,
      g_enemies = [], g_heap = (\<lambda>r. unallocated), g_projectiles = [], g_defenses = [],
      g_path = [], g_width = 1200, g_height = 800, g_isGameOver = False,
      g_enemiesSpawned = 0, g_nextRef = 0, g_damageTrace = []\<rparr>"

text \<open>A game whose level has the straight path of three points along the middle row.\<close>

definition sampleGame :: game where
  "sampleGame = Game_new\<lparr>g_path := [(0, 400), (600, 400), (1200, 400)]\<rparr>"

text \<open>
  A MegaCorp Titan and a Raid Team as the body of the constructor of \<^verbatim>\<open>Boss\<close> writes
  them (\<open>bossFields\<close>, on an object that is alive), with the health that
  \<^verbatim>\<open>spawnEnemy\<close> sets at multiplier 1. No call of the program gets that far: the
  constructor of \<^verbatim>\<open>Enemy\<close> throws for a boss type before (\<open>Boss_new\<close>).
\<close>

definition sampleTitan :: enemy where
  "sampleTitan =
     (case BOSS_TYPES ''megaCorpTitan'' of
        None \<Rightarrow> unallocated
      | Some c \<Rightarrow> bossFields (unallocated\<lparr>e_type := ''megaCorpTitan'', e_isDead := False\<rparr>) c)"


text \<open>A script kiddie as \<^verbatim>\<open>new Enemy\<close> creates it at the first point of the path.\<close>

definition sampleEnemy :: enemy where
  "sampleEnemy =
     (case Enemy_new sampleGame 0 400 ''scriptKiddie'' of
        Inl err \<Rightarrow> unallocated
      | Inr e \<Rightarrow> e)"

text \<open>An encryption defense as \<^verbatim>\<open>new Defense\<close> creates it at cell (5, 7).\<close>

definition sampleDefense :: defense where
  "sampleDefense =
     (case Defense_new 200 280 ''encryption'' of
        Inr d \<Rightarrow> d
      | Inl err \<Rightarrow>
          \<lparr>d_x = 0, d_y = 0, d_type = [],
           d_config = \<lparr>dc_cost = \<lparr>dharma = 0, bandwidth = 0, anonymity = 0\<rparr>, dc_damage = 0,
             dc_range = 0, dc_fireRate = 0, dc_projectileSpeed = 0, dc_special = [],
             dc_color = []\<rparr>,
           d_level = 0, d_maxLevel = 0, d_experience = 0, d_experienceToNextLevel = 0,
           d_damage = 0, d_range = 0, d_fireRate = 0, d_lastFireTime = 0, d_target = None,
           d_specialAbilityCooldown = 0, d_specialAbilityActive = False,
           d_specialAbilityDuration = 0, d_buffs = [], d_debuffs = [], d_isActive = False,
           d_centerX = 0, d_centerY = 0\<rparr>)"

text \<open>
  A game with the sample encryption defense and one script kiddie 100 units below its
  centre that carries the \<^verbatim>\<open>stealthed\<close> effect.
\<close>

definition stealthGame :: game where
  "stealthGame =
     sampleGame\<lparr>g_enemies := [0],
       g_heap := (g_heap sampleGame)
         (0 := applyStatusEffect 0 (sampleEnemy\<lparr>e_x := 220, e_y := 400\<rparr>) ''stealthed'' 2000),
       g_defenses := [sampleDefense], g_nextRef := 1\<rparr>"

text \<open>The same game with the enemy not stealthed.\<close>

definition plainGame :: game where
  "plainGame =
     stealthGame\<lparr>g_heap := (g_heap stealthGame)(0 := sampleEnemy\<lparr>e_x := 220, e_y := 400\<rparr>)\<rparr>"

text \<open>
  A game whose only enemy is a script kiddie one unit before the last point of the path,
  on its way to that point.
\<close>

definition endGame :: game where
  "endGame =
     sampleGame\<lparr>g_enemies := [0],
       g_heap := (g_heap sampleGame)
         (0 := sampleEnemy\<lparr>e_x := 1199, e_y := 400, e_pathIndex := 2, e_progress := 1,
                 e_targetX := 1200, e_targetY := 400\<rparr>),
       g_nextRef := 1\<rparr>"

text \<open>
  Two projectiles of damage 5 fired at the enemy of \<open>plainGame\<close> from the centre of the
  sample defense: one of an encryption defense (piercing), one of a firewall.
\<close>

definition piercingShot :: projectile where
  "piercingShot = Projectile_new plainGame 220 300 (Some 0) 5 4 ''#0f3460'' ''encryption''"

definition firewallShot :: projectile where
  "firewallShot = Projectile_new plainGame 220 300 (Some 0) 5 5 ''#e94560'' ''firewall''"

text \<open>
  Two sources of random numbers, a corporate saboteur as \<^verbatim>\<open>new Enemy\<close> creates it, and
  the game \<open>plainGame\<close> with its enemy bound as target of the defense.
\<close>

definition drawsLow :: "nat \<Rightarrow> real" where
  "drawsLow k = 0.005"

definition drawsHigh :: "nat \<Rightarrow> real" where
  "drawsHigh k = 0.5"

definition drawsMixed :: "nat \<Rightarrow> real" where
  "drawsMixed k = (if k < 96 then 0.5 else 0.005)"

definition sampleSaboteur :: enemy where
  "sampleSaboteur =
     (case Enemy_new sampleGame 0 400 ''corporateSaboteur'' of
        Inl err \<Rightarrow> unallocated
      | Inr e \<Rightarrow> e)"

definition armedGame :: game where
  "armedGame = plainGame\<lparr>g_defenses := [sampleDefense\<lparr>d_target := Some 0\<rparr>]\<rparr>"

section \<open>Verified properties\<close>

subsection \<open>Resources\<close>

lemma getResource_setResource:
  "getResource (setResource r k v) k' =
     (if k = k' \<and> getResource r k \<noteq> None then Some v else getResource r k')"
  by (auto simp: getResource_def setResource_def)

lemma subtractEntries_other:
  "k \<notin> fst ` set cost \<Longrightarrow> getResource (subtractEntries r cost) k = getResource r k"
  by (induction r cost rule: subtractEntries.induct)
     (auto simp: getResource_setResource split: option.splits)

lemma subtractEntries_listed:
  "distinct (map fst cost) \<Longrightarrow> (k, a) \<in> set cost \<Longrightarrow> getResource r k = Some b \<Longrightarrow>
   getResource (subtractEntries r cost) k = Some (b - a)"
proof (induction r cost rule: subtractEntries.induct)
  case (1 r)
  then show ?case by simp
next
  case (2 r resource amount rest)
  show ?case
  proof (cases "resource = k")
    case True
    with 2 have "a = amount" and "k \<notin> fst ` set rest"
      by (auto simp: image_iff)
    with True 2 show ?thesis
      by (simp add: subtractEntries_other getResource_setResource)
  next
    case False
    with 2 show ?thesis
      by (auto simp: getResource_setResource split: option.splits)
  qed
qed

lemma affordable_listed:
  "affordable r cost \<Longrightarrow> (k, a) \<in> set cost \<Longrightarrow> getResource r k = Some b \<Longrightarrow> a \<le> b"
  by (induction r cost rule: affordable.induct) (auto split: option.splits if_splits)

lemma getResource_total:
  "getResource r ''dharma'' = Some (dharma r)"
  "getResource r ''bandwidth'' = Some (bandwidth r)"
  "getResource r ''anonymity'' = Some (anonymity r)"
  by (simp_all add: getResource_def)

lemma getResource_Some_cases:
  "getResource r k = Some b \<Longrightarrow>
     (k = ''dharma'' \<and> b = dharma r) \<or> (k = ''bandwidth'' \<and> b = bandwidth r)
     \<or> (k = ''anonymity'' \<and> b = anonymity r)"
  by (auto simp: getResource_def split: if_splits)

lemma spend_balance_nonneg:
  assumes "affordable r cost" "distinct (map fst cost)" "getResource r k = Some b" "0 \<le> b"
  shows "\<exists>b'. getResource (subtractEntries r cost) k = Some b' \<and> 0 \<le> b'"
proof (cases "k \<in> fst ` set cost")
  case True
  then obtain a where a: "(k, a) \<in> set cost" by auto
  from affordable_listed[OF assms(1) a assms(3)] have "a \<le> b" .
  with subtractEntries_listed[OF assms(2) a assms(3)] show ?thesis by simp
next
  case False
  with assms show ?thesis by (simp add: subtractEntries_other)
qed

subsection \<open>Sample objects, evaluated\<close>

lemma sampleEnemy_eq:
  "sampleEnemy = \<lparr>e_x = 0, e_y = 400, e_type = ''scriptKiddie'', e_health = 20, e_maxHealth = 20,
      e_speed = 80, e_baseSpeed = 80, e_damage = 1,
      e_reward = \<lparr>dharma = 5, bandwidth = 2, anonymity = 1\<rparr>,
      e_pathIndex = 1, e_progress = 1 / 2, e_targetX = 600, e_targetY = 400,
      e_reachedEnd = False, e_isDead = False, e_deathTime = 0,
      e_resistance = defaultResistance,
      e_specialAbilityCooldown = 0, e_specialAbilityActive = False,
      e_specialAbilityDuration = 0,
      e_statusEffects = [], e_targetPriority = 0, e_threatLevel = 1, e_boss = None\<rparr>"
  by (simp add: sampleEnemy_def Enemy_new_def ENEMY_TYPES_def updateTarget_def sampleGame_def
      Game_new_def)

lemma sampleDefense_eq:
  "sampleDefense = \<lparr>d_x = 200, d_y = 280, d_type = ''encryption'',
      d_config = \<lparr>dc_cost = \<lparr>dharma = 50, bandwidth = 20, anonymity = 10\<rparr>,
        dc_damage = 25, dc_range = 180, dc_fireRate = 1500, dc_projectileSpeed = 4,
        dc_special = ''encrypt'', dc_color = ''#0f3460''\<rparr>,
      d_level = 1, d_maxLevel = 5, d_experience = 0, d_experienceToNextLevel = 100,
      d_damage = 25, d_range = 180, d_fireRate = 1500, d_lastFireTime = 0, d_target = None,
      d_specialAbilityCooldown = 0, d_specialAbilityActive = False,
      d_specialAbilityDuration = 0, d_buffs = [], d_debuffs = [], d_isActive = True,
      d_centerX = 220, d_centerY = 300\<rparr>"
  by (simp add: sampleDefense_def Defense_new_def DEFENSE_TYPES_def GRID_SIZE_def)

lemma sampleTitan_eq:
  "sampleTitan = unallocated\<lparr>e_type := ''megaCorpTitan'', e_isDead := False,
      e_health := 800, e_maxHealth := 800, e_speed := 20, e_baseSpeed := 20, e_damage := 5,
      e_reward := \<lparr>dharma = 200, bandwidth = 120, anonymity = 80\<rparr>,
      e_specialAbilityCooldown := 4000,
      e_boss := Some \<lparr>b_phases = 4, b_currentPhase = 1, b_phaseHealthThreshold = 200,
        b_size = 50, b_minionSpawnTimer = 0, b_empBlastTimer = 0, b_shieldRegenTimer = 6000,
        b_shieldActive = True, b_shieldHealth = 100, b_maxShieldHealth = 100\<rparr>\<rparr>"
  by (simp add: sampleTitan_def BOSS_TYPES_def bossFields_def initializeBossBehavior_def
      unallocated_def)


subsection \<open>Spending resources\<close>

text \<open>
  C10. \<^verbatim>\<open>spendResources(cost)\<close> subtracts every listed amount from the balance of its
  name, without a test and without clamping at zero. If \<^verbatim>\<open>canAfford(cost)\<close> holds and
  the three balances are non-negative, they are non-negative afterwards. Without
  \<^verbatim>\<open>canAfford\<close> a balance can become negative: spending 150 dharma from the initial
  100 leaves -50. (The entries of a cost object have distinct names.)
\<close>

theorem spendResources_balances:
  assumes "distinct (map fst cost)"
  shows "(\<forall>k a b. (k, a) \<in> set cost \<and> getResource (g_resources g) k = Some b \<longrightarrow>
            getResource (g_resources (spendResources g cost)) k = Some (b - a))
       \<and> (canAfford g cost \<and> 0 \<le> dharma (g_resources g) \<and> 0 \<le> bandwidth (g_resources g)
            \<and> 0 \<le> anonymity (g_resources g) \<longrightarrow>
          0 \<le> dharma (g_resources (spendResources g cost))
            \<and> 0 \<le> bandwidth (g_resources (spendResources g cost))
            \<and> 0 \<le> anonymity (g_resources (spendResources g cost)))
       \<and> \<not> canAfford Game_new [(''dharma'', 150)]
       \<and> dharma (g_resources (spendResources Game_new [(''dharma'', 150)])) = - 50"
proof (intro conjI allI impI)
  fix k a b
  assume "(k, a) \<in> set cost \<and> getResource (g_resources g) k = Some b"
  then show "getResource (g_resources (spendResources g cost)) k = Some (b - a)"
    using assms by (simp add: spendResources_def subtractEntries_listed)
next
  assume h: "canAfford g cost \<and> 0 \<le> dharma (g_resources g) \<and> 0 \<le> bandwidth (g_resources g)
            \<and> 0 \<le> anonymity (g_resources g)"
  then have aff: "affordable (g_resources g) cost" by (simp add: canAfford_def)
  from spend_balance_nonneg[OF aff assms getResource_total(1)] h
  show "0 \<le> dharma (g_resources (spendResources g cost))"
    by (auto simp: spendResources_def getResource_total)
  from spend_balance_nonneg[OF aff assms getResource_total(2)] h
  show "0 \<le> bandwidth (g_resources (spendResources g cost))"
    by (auto simp: spendResources_def getResource_total)
  from spend_balance_nonneg[OF aff assms getResource_total(3)] h
  show "0 \<le> anonymity (g_resources (spendResources g cost))"
    by (auto simp: spendResources_def getResource_total)
next
  show "\<not> canAfford Game_new [(''dharma'', 150)]"
    by (simp add: canAfford_def Game_new_def INITIAL_RESOURCES_def getResource_def)
  show "dharma (g_resources (spendResources Game_new [(''dharma'', 150)])) = - 50"
    by (simp add: spendResources_def Game_new_def INITIAL_RESOURCES_def getResource_def
        setResource_def)
qed

theorem spendResources_balances_witness:
  "distinct (map fst [(''dharma'', 50::real), (''bandwidth'', 20), (''anonymity'', 10)])
   \<and> canAfford Game_new [(''dharma'', 50), (''bandwidth'', 20), (''anonymity'', 10)]
   \<and> 0 \<le> dharma (g_resources Game_new) \<and> 0 \<le> bandwidth (g_resources Game_new)
   \<and> 0 \<le> anonymity (g_resources Game_new)
   \<and> (''dharma'', 50) \<in> set [(''dharma'', 50::real), (''bandwidth'', 20), (''anonymity'', 10)]
   \<and> getResource (g_resources Game_new) ''dharma'' = Some 100
   \<and> getResource (g_resources (spendResources Game_new
         [(''dharma'', 50), (''bandwidth'', 20), (''anonymity'', 10)])) ''dharma'' = Some (100 - 50)
   \<and> 0 \<le> dharma (g_resources (spendResources Game_new
         [(''dharma'', 50), (''bandwidth'', 20), (''anonymity'', 10)]))
   \<and> 0 \<le> bandwidth (g_resources (spendResources Game_new
         [(''dharma'', 50), (''bandwidth'', 20), (''anonymity'', 10)]))
   \<and> 0 \<le> anonymity (g_resources (spendResources Game_new
         [(''dharma'', 50), (''bandwidth'', 20), (''anonymity'', 10)]))"
proof -
  have d: "distinct (map fst [(''dharma'', 50::real), (''bandwidth'', 20), (''anonymity'', 10)])"
    by simp
  have c: "canAfford Game_new [(''dharma'', 50), (''bandwidth'', 20), (''anonymity'', 10)]"
    by (simp add: canAfford_def Game_new_def INITIAL_RESOURCES_def getResource_def)
  have n: "0 \<le> dharma (g_resources Game_new) \<and> 0 \<le> bandwidth (g_resources Game_new)
     \<and> 0 \<le> anonymity (g_resources Game_new)"
    by (simp add: Game_new_def INITIAL_RESOURCES_def)
  have r: "getResource (g_resources Game_new) ''dharma'' = Some 100"
    by (simp add: Game_new_def INITIAL_RESOURCES_def getResource_def)
  from spendResources_balances[OF d, of Game_new] c n r d show ?thesis
    by auto
qed

subsection \<open>Buffs on projectiles\<close>

text \<open>
  C9. \<^verbatim>\<open>Projectile.applyBuff\<close> with a kind other than \<^verbatim>\<open>speed\<close>, \<^verbatim>\<open>damage\<close>,
  \<^verbatim>\<open>piercing\<close> and \<^verbatim>\<open>homing\<close> returns the projectile as it was; so the
  \<^verbatim>\<open>encrypted\<close> buff of the encryption defense's special ability changes no projectile.
\<close>

theorem Projectile_applyBuff_other_kinds:
  "(buffType \<notin> {''speed'', ''damage'', ''piercing'', ''homing''} \<longrightarrow>
      Projectile_applyBuff p buffType dur = p)
   \<and> encryptAllProjectiles g = g"
  by (simp add: Projectile_applyBuff_def encryptAllProjectiles_def map_idI)

theorem Projectile_applyBuff_other_kinds_witness:
  "''encrypted'' \<notin> {''speed'', ''damage'', ''piercing'', ''homing''}
   \<and> Projectile_applyBuff (Projectile_new sampleGame 220 300 None 25 4 ''#0f3460'' ''encryption'')
        ''encrypted'' 3000
      = Projectile_new sampleGame 220 300 None 25 4 ''#0f3460'' ''encryption''
   \<and> encryptAllProjectiles (sampleGame\<lparr>g_projectiles :=
          [Projectile_new sampleGame 220 300 None 25 4 ''#0f3460'' ''encryption'']\<rparr>)
      = sampleGame\<lparr>g_projectiles :=
          [Projectile_new sampleGame 220 300 None 25 4 ''#0f3460'' ''encryption'']\<rparr>"
proof -
  have k: "''encrypted'' \<notin> {''speed'', ''damage'', ''piercing'', ''homing''}" by simp
  from Projectile_applyBuff_other_kinds[of "''encrypted''"
      "Projectile_new sampleGame 220 300 None 25 4 ''#0f3460'' ''encryption''" 3000
      "sampleGame\<lparr>g_projectiles :=
          [Projectile_new sampleGame 220 300 None 25 4 ''#0f3460'' ''encryption'']\<rparr>"] k
  show ?thesis by blast
qed

subsection \<open>Status effects and buffs\<close>

lemma durationOf_mapSet:
  "durationOf (mapSet m k v) k' = (if k' = k then Some (ef_duration v) else durationOf m k')"
  by (simp add: durationOf_def mapSet_def update_conv')

lemma distinct_mapSet:
  "distinct (map fst m) \<Longrightarrow> distinct (map fst (mapSet m k v))"
  by (simp add: mapSet_def distinct_update)

text \<open>
  C7, as the spec states it, fails: a \<^verbatim>\<open>slowed\<close> effect of 3000 ms that is applied again
  with 1000 ms has 1000 ms left, not the maximum 3000.
\<close>

theorem reapply_shortens_counterexample:
  "durationOf (e_statusEffects (applyStatusEffect 0 sampleEnemy ''slowed'' 3000)) ''slowed''
     = Some 3000
   \<and> durationOf (e_statusEffects (applyStatusEffect 0
         (applyStatusEffect 0 sampleEnemy ''slowed'' 3000) ''slowed'' 1000)) ''slowed'' = Some 1000
   \<and> durationOf (e_statusEffects (applyStatusEffect 0
         (applyStatusEffect 0 sampleEnemy ''slowed'' 3000) ''slowed'' 1000)) ''slowed''
       \<noteq> Some (max 3000 1000)"
  by (simp add: applyStatusEffect_def durationOf_mapSet)

text \<open>
  C7, amended. For an enemy (\<^verbatim>\<open>applyStatusEffect\<close>) and for a defense (\<^verbatim>\<open>applyBuff\<close>),
  applying a kind sets its remaining duration to the duration requested, whatever was
  left before; the other kinds keep theirs; and the table still has at most one entry
  per kind.
\<close>

theorem apply_effect_overwrites:
  "durationOf (e_statusEffects (applyStatusEffect now e k dur)) k = Some dur
   \<and> (k' \<noteq> k \<longrightarrow> durationOf (e_statusEffects (applyStatusEffect now e k dur)) k'
                    = durationOf (e_statusEffects e) k')
   \<and> (distinct (map fst (e_statusEffects e)) \<longrightarrow>
        distinct (map fst (e_statusEffects (applyStatusEffect now e k dur))))
   \<and> durationOf (d_buffs (applyBuff now d k dur)) k = Some dur
   \<and> (k' \<noteq> k \<longrightarrow> durationOf (d_buffs (applyBuff now d k dur)) k' = durationOf (d_buffs d) k')
   \<and> (distinct (map fst (d_buffs d)) \<longrightarrow> distinct (map fst (d_buffs (applyBuff now d k dur))))"
  by (simp add: applyStatusEffect_def applyBuff_def durationOf_mapSet distinct_mapSet)

theorem apply_effect_overwrites_witness:
  "''hasted'' \<noteq> ''slowed''
   \<and> distinct (map fst (e_statusEffects (applyStatusEffect 0 sampleEnemy ''slowed'' 3000)))
   \<and> distinct (map fst (d_buffs (applyBuff 0 sampleDefense ''boosted'' 2000)))
   \<and> durationOf (e_statusEffects (applyStatusEffect 5
        (applyStatusEffect 0 sampleEnemy ''slowed'' 3000) ''slowed'' 1000)) ''slowed'' = Some 1000
   \<and> durationOf (e_statusEffects (applyStatusEffect 5
        (applyStatusEffect 0 sampleEnemy ''slowed'' 3000) ''slowed'' 1000)) ''hasted'' = None
   \<and> distinct (map fst (e_statusEffects (applyStatusEffect 5
        (applyStatusEffect 0 sampleEnemy ''slowed'' 3000) ''slowed'' 1000)))
   \<and> durationOf (d_buffs (applyBuff 5
        (applyBuff 0 sampleDefense ''boosted'' 2000) ''slowed'' 1000)) ''slowed'' = Some 1000
   \<and> distinct (map fst (d_buffs (applyBuff 5
        (applyBuff 0 sampleDefense ''boosted'' 2000) ''slowed'' 1000)))"
proof -
  have a: "''hasted'' \<noteq> ''slowed''" by simp
  have b: "distinct (map fst (e_statusEffects (applyStatusEffect 0 sampleEnemy ''slowed'' 3000)))"
    by (simp add: applyStatusEffect_def mapSet_def sampleEnemy_eq)
  have c: "distinct (map fst (d_buffs (applyBuff 0 sampleDefense ''boosted'' 2000)))"
    by (simp add: applyBuff_def mapSet_def sampleDefense_eq)
  have d: "durationOf (e_statusEffects (applyStatusEffect 0 sampleEnemy ''slowed'' 3000)) ''hasted''
      = None"
    by (simp add: applyStatusEffect_def mapSet_def sampleEnemy_eq durationOf_def)
  from apply_effect_overwrites[of 5 "applyStatusEffect 0 sampleEnemy ''slowed'' 3000"
      "''slowed''" 1000 "''hasted''" "applyBuff 0 sampleDefense ''boosted'' 2000"] a b c d
  show ?thesis by simp
qed

subsection \<open>The shield of a boss\<close>

text \<open>
  C8. A boss whose shield is active with health \<open>s > 0\<close> takes damage \<open>d\<close>: the shield
  loses \<open>min d s\<close> and stays active exactly if \<open>d < s\<close>; only the rest \<open>max 0 (d - s)\<close>
  reaches \<^verbatim>\<open>Enemy.takeDamage\<close>, which takes it from the health (scaled by the
  resistance to the damage type, 1 unless changed). With a full shield of 100 and a hit
  of 120 the shield ends at 0, inactive, and the health drops by exactly 20.
\<close>

theorem Boss_takeDamage_shield_first:
  assumes "e_boss e = Some b" "b_shieldActive b" "0 < b_shieldHealth b"
  shows "e_boss (takeDamageObj now e d ty)
           = Some (b\<lparr>b_shieldHealth := b_shieldHealth b - min d (b_shieldHealth b),
                    b_shieldActive := d < b_shieldHealth b\<rparr>)
       \<and> e_health (takeDamageObj now e d ty)
           = e_health e - max 0 (d - b_shieldHealth b) * resistanceOf e ty
       \<and> (b_shieldHealth b = 100 \<and> d = 120 \<and> resistanceOf e ty = 1 \<longrightarrow>
            e_boss (takeDamageObj now e d ty)
              = Some (b\<lparr>b_shieldHealth := 0, b_shieldActive := False\<rparr>)
            \<and> e_health (takeDamageObj now e d ty) = e_health e - 20)"
  using assms
  by (auto simp: takeDamageObj_def Boss_takeDamage_def Enemy_takeDamage_def die_def
      resistanceOf_def Let_def min_def max_def split: option.splits)

theorem Boss_takeDamage_shield_first_witness:
  "e_type sampleTitan = ''megaCorpTitan''
   \<and> e_boss sampleTitan = Some \<lparr>b_phases = 4, b_currentPhase = 1, b_phaseHealthThreshold = 200,
        b_size = 50, b_minionSpawnTimer = 0, b_empBlastTimer = 0, b_shieldRegenTimer = 6000,
        b_shieldActive = True, b_shieldHealth = 100, b_maxShieldHealth = 100\<rparr>
   \<and> resistanceOf sampleTitan ''fire'' = 1
   \<and> e_health sampleTitan = 800
   \<and> e_boss (takeDamageObj 0 sampleTitan 120 ''fire'')
       = Some \<lparr>b_phases = 4, b_currentPhase = 1, b_phaseHealthThreshold = 200,
        b_size = 50, b_minionSpawnTimer = 0, b_empBlastTimer = 0, b_shieldRegenTimer = 6000,
        b_shieldActive = False, b_shieldHealth = 0, b_maxShieldHealth = 100\<rparr>
   \<and> e_health (takeDamageObj 0 sampleTitan 120 ''fire'') = 780"
proof -
  have b: "e_boss sampleTitan = Some \<lparr>b_phases = 4, b_currentPhase = 1,
        b_phaseHealthThreshold = 200,
        b_size = 50, b_minionSpawnTimer = 0, b_empBlastTimer = 0, b_shieldRegenTimer = 6000,
        b_shieldActive = True, b_shieldHealth = 100, b_maxShieldHealth = 100\<rparr>"
    by (simp add: sampleTitan_eq)
  have r: "resistanceOf sampleTitan ''fire'' = 1"
    by (simp add: sampleTitan_eq resistanceOf_def unallocated_def defaultResistance_def)
  have h: "e_health sampleTitan = 800" and t: "e_type sampleTitan = ''megaCorpTitan''"
    by (simp_all add: sampleTitan_eq)
  from Boss_takeDamage_shield_first[OF b, of 0 120 "''fire''"] b r h t
  show ?thesis by simp
qed

subsection \<open>Damage of a defense\<close>

text \<open>
  C5, the code at the failing input. The encryption defense that \<^verbatim>\<open>new Defense\<close>
  creates is at level 1 without buffs and debuffs, its configured damage is 25, and
  \<^verbatim>\<open>getDamage()\<close> returns 25, where the claim says \<open>\<lfloor>25 * 1.2\<rfloor> = 30\<close>. The same
  defense after \<^verbatim>\<open>loadSaveData\<close> restored level 1 returns 30: the constructor is the
  only place that leaves the level factor out. After two calls of \<^verbatim>\<open>upgrade()\<close> the
  level is 4 (the second call also levels up by experience) and \<^verbatim>\<open>getDamage()\<close>
  returns the value of level 3, 40.
\<close>

theorem getDamage_fresh_encryption:
  "Defense_new 200 280 ''encryption'' = Inr sampleDefense
   \<and> d_level sampleDefense = 1 \<and> d_buffs sampleDefense = [] \<and> d_debuffs sampleDefense = []
   \<and> dc_damage (d_config sampleDefense) = 25
   \<and> getDamage sampleDefense = 25
   \<and> getDamage (loadStats sampleDefense 1) = 30
   \<and> d_level (upgrade (upgrade sampleDefense)) = 4
   \<and> getDamage (upgrade (upgrade sampleDefense)) = 40"
proof -
  have "Defense_new 200 280 ''encryption'' = Inr sampleDefense"
    by (simp add: sampleDefense_def Defense_new_def DEFENSE_TYPES_def)
  moreover have "getDamage sampleDefense = 25" "getDamage (loadStats sampleDefense 1) = 30"
    by (simp_all add: sampleDefense_eq getDamage_def loadStats_def hasBuff_def hasDebuff_def
        has_def)
  moreover have "d_level (upgrade (upgrade sampleDefense)) = 4
      \<and> getDamage (upgrade (upgrade sampleDefense)) = 40"
    by (simp add: sampleDefense_eq upgrade_def canUpgrade_def addExperience_def levelUp.simps
        getDamage_def hasBuff_def hasDebuff_def has_def Let_def)
  ultimately show ?thesis by (simp add: sampleDefense_eq)
qed

subsection \<open>Boss waves and boss phases\<close>

lemma waveLoop_length: "length (waveLoop rnd ws k) = length ws"
  by (induction ws arbitrary: k) (auto split: prod.splits)

















subsection \<open>Target acquisition\<close>

lemma bestTargetLoop_inv:
  assumes "bestTargetLoop g d rs (bt, bs) = (bt', bs')"
    and "\<forall>r \<in> set rs. e_maxHealth (g_heap g r) \<noteq> 0"
    and "case bt of None \<Rightarrow> bs = None | Some t \<Rightarrow> bs = Some (scoreOf g d t) \<and> inRange g d t"
  shows "case bt' of
           None \<Rightarrow> bt = None \<and> (\<forall>r \<in> set rs. \<not> inRange g d r)
         | Some t' \<Rightarrow> bs' = Some (scoreOf g d t') \<and> inRange g d t'
             \<and> (bt = Some t' \<or> t' \<in> set rs)
             \<and> (\<forall>r \<in> set rs. inRange g d r \<longrightarrow> scoreOf g d r \<le> scoreOf g d t')
             \<and> (\<forall>t. bt = Some t \<longrightarrow> scoreOf g d t \<le> scoreOf g d t')"
  using assms
proof (induction rs arbitrary: bt bs)
  case Nil
  then show ?case by (auto split: option.splits)
next
  case (Cons r rs)
  have mh: "e_maxHealth (g_heap g r) \<noteq> 0" and rest: "\<forall>r \<in> set rs. e_maxHealth (g_heap g r) \<noteq> 0"
    using Cons.prems(2) by auto
  show ?case
  proof (cases "inRange g d r \<and> better (scoreOf g d r) bs")
    case True
    then have step: "bestTargetLoop g d rs (Some r, Some (scoreOf g d r)) = (bt', bs')"
      using Cons.prems(1) mh by (simp add: inRange_def scoreOf_def Let_def)
    have inv: "case Some r of None \<Rightarrow> Some (scoreOf g d r) = None
        | Some t \<Rightarrow> Some (scoreOf g d r) = Some (scoreOf g d t) \<and> inRange g d t"
      using True by simp
    from Cons.IH[OF step rest inv] obtain t' where t': "bt' = Some t'"
      "bs' = Some (scoreOf g d t')" "inRange g d t'" "r = t' \<or> t' \<in> set rs"
      "\<forall>x \<in> set rs. inRange g d x \<longrightarrow> scoreOf g d x \<le> scoreOf g d t'"
      "scoreOf g d r \<le> scoreOf g d t'"
      by (auto split: option.splits)
    have old: "\<forall>t. bt = Some t \<longrightarrow> scoreOf g d t \<le> scoreOf g d t'"
    proof (intro allI impI)
      fix t assume "bt = Some t"
      with Cons.prems(3) have "bs = Some (scoreOf g d t)" by simp
      with True have "scoreOf g d t < scoreOf g d r" by (simp add: better_def)
      with t'(6) show "scoreOf g d t \<le> scoreOf g d t'" by simp
    qed
    show ?thesis using t' old by auto
  next
    case False
    then have step: "bestTargetLoop g d rs (bt, bs) = (bt', bs')"
      using Cons.prems(1) mh by (auto simp: inRange_def scoreOf_def Let_def)
    note ih = Cons.IH[OF step rest Cons.prems(3)]
    show ?thesis
    proof (cases bt')
      case None
      with ih have n: "bt = None" "\<forall>x \<in> set rs. \<not> inRange g d x" by auto
      with Cons.prems(3) have "bs = None" by simp
      with False have "\<not> inRange g d r" by (simp add: better_def)
      with None n show ?thesis by simp
    next
      case (Some t')
      with ih have t': "bs' = Some (scoreOf g d t')" "inRange g d t'"
        "bt = Some t' \<or> t' \<in> set rs"
        "\<forall>x \<in> set rs. inRange g d x \<longrightarrow> scoreOf g d x \<le> scoreOf g d t'"
        "\<forall>t. bt = Some t \<longrightarrow> scoreOf g d t \<le> scoreOf g d t'"
        by auto
      have "inRange g d r \<longrightarrow> scoreOf g d r \<le> scoreOf g d t'"
      proof
        assume ir: "inRange g d r"
        with False have nb: "\<not> better (scoreOf g d r) bs" by simp
        then obtain s where s: "bs = Some s" "scoreOf g d r \<le> s"
          by (auto simp: better_def split: option.splits)
        with Cons.prems(3) obtain t where t: "bt = Some t" "s = scoreOf g d t"
          by (auto split: option.splits)
        with t'(5) s show "scoreOf g d r \<le> scoreOf g d t'" by auto
      qed
      with Some t' show ?thesis by auto
    qed
  qed
qed

lemma findBestTarget_best:
  assumes "\<forall>r \<in> set (g_enemies g). e_maxHealth (g_heap g r) \<noteq> 0"
  shows "(findBestTarget g d = None \<longleftrightarrow> (\<forall>r \<in> set (g_enemies g). \<not> inRange g d r))
       \<and> (\<forall>t. findBestTarget g d = Some t \<longrightarrow>
             t \<in> set (g_enemies g) \<and> inRange g d t
             \<and> (\<forall>r \<in> set (g_enemies g). inRange g d r \<longrightarrow> scoreOf g d r \<le> scoreOf g d t))"
proof -
  obtain bt' bs' where l: "bestTargetLoop g d (g_enemies g) (None, None) = (bt', bs')"
    by (cases "bestTargetLoop g d (g_enemies g) (None, None)") auto
  have f: "findBestTarget g d = bt'" by (simp add: findBestTarget_def l)
  from bestTargetLoop_inv[OF l assms] show ?thesis
    unfolding f by (cases bt') auto
qed

lemma bestTargetLoop_status_blind:
  assumes "\<forall>r. \<exists>fx. g_heap g' r = (g_heap g r)\<lparr>e_statusEffects := fx\<rparr>"
  shows "bestTargetLoop g' d rs acc = bestTargetLoop g d rs acc"
proof (induction rs arbitrary: acc)
  case Nil
  then show ?case by simp
next
  case (Cons r rs)
  from assms obtain fx where "g_heap g' r = (g_heap g r)\<lparr>e_statusEffects := fx\<rparr>" by blast
  with Cons show ?case by (cases acc) (simp add: targetScore_def Let_def)
qed

lemma managerLoop_status_blind:
  assumes "\<forall>r. \<exists>fx. g_heap g' r = (g_heap g r)\<lparr>e_statusEffects := fx\<rparr>"
  shows "managerLoop g' d rs acc = managerLoop g d rs acc"
proof (induction rs arbitrary: acc)
  case Nil
  then show ?case by simp
next
  case (Cons r rs)
  from assms obtain fx where "g_heap g' r = (g_heap g r)\<lparr>e_statusEffects := fx\<rparr>" by blast
  with Cons show ?case by (cases acc) (simp add: managerScore_def Let_def)
qed

lemma stealthGame_facts:
  "g_enemies stealthGame = [0]"
  "g_heap stealthGame 0 = applyStatusEffect 0 (sampleEnemy\<lparr>e_x := 220, e_y := 400\<rparr>) ''stealthed'' 2000"
  by (simp_all add: stealthGame_def sampleGame_def Game_new_def)

text \<open>
  C4, as the spec states it, fails. A script kiddie that carries \<^verbatim>\<open>stealthed\<close> and is
  the only enemy within range of an encryption defense is the target that
  \<^verbatim>\<open>Defense.findBestTarget\<close> returns and \<^verbatim>\<open>updateTargeting\<close> binds, and the one that
  \<^verbatim>\<open>DefenseManager.findBestTarget\<close> returns.
\<close>

theorem stealthed_target_counterexample:
  "hasStatusEffect (g_heap stealthGame 0) ''stealthed''
   \<and> g_enemies stealthGame = [0]
   \<and> findBestTarget stealthGame sampleDefense = Some 0
   \<and> d_target (updateTargeting stealthGame sampleDefense) = Some 0
   \<and> DefenseManager_findBestTarget stealthGame sampleDefense = Some 0"
  by (simp add: stealthGame_facts findBestTarget_def DefenseManager_findBestTarget_def
      updateTargeting_def isValidTarget_def
      sampleDefense_eq sampleEnemy_eq applyStatusEffect_def hasStatusEffect_def has_def mapSet_def
      distance_def better_def getRange_def hasBuff_def hasDebuff_def GRID_SIZE_def Let_def)

text \<open>
  C4, amended. Target acquisition does not look at status effects. Where every enemy of
  \<^verbatim>\<open>game.enemies\<close> has a non-zero \<^verbatim>\<open>maxHealth\<close>, \<^verbatim>\<open>Defense.findBestTarget\<close> returns
  no target exactly if no enemy is within range, and otherwise an enemy within range
  whose score no enemy within range exceeds. Two games that differ only in the status
  effects of their enemies give the same target, for \<^verbatim>\<open>Defense.findBestTarget\<close> and for
  \<^verbatim>\<open>DefenseManager.findBestTarget\<close>: an enemy with \<^verbatim>\<open>stealthed\<close> is selected exactly
  when it would be without.
\<close>

theorem target_acquisition_ignores_stealth:
  "((\<forall>r \<in> set (g_enemies g). e_maxHealth (g_heap g r) \<noteq> 0) \<longrightarrow>
      (findBestTarget g d = None \<longleftrightarrow> (\<forall>r \<in> set (g_enemies g). \<not> inRange g d r))
      \<and> (\<forall>t. findBestTarget g d = Some t \<longrightarrow>
            t \<in> set (g_enemies g) \<and> inRange g d t
            \<and> (\<forall>r \<in> set (g_enemies g). inRange g d r \<longrightarrow> scoreOf g d r \<le> scoreOf g d t)))
   \<and> (g_enemies g' = g_enemies g
        \<and> (\<forall>r. \<exists>fx. g_heap g' r = (g_heap g r)\<lparr>e_statusEffects := fx\<rparr>) \<longrightarrow>
      findBestTarget g' d = findBestTarget g d
      \<and> DefenseManager_findBestTarget g' d = DefenseManager_findBestTarget g d)"
proof (intro conjI impI)
  assume "\<forall>r \<in> set (g_enemies g). e_maxHealth (g_heap g r) \<noteq> 0"
  from findBestTarget_best[OF this, of d]
  show "findBestTarget g d = None \<longleftrightarrow> (\<forall>r \<in> set (g_enemies g). \<not> inRange g d r)"
    and "\<forall>t. findBestTarget g d = Some t \<longrightarrow>
            t \<in> set (g_enemies g) \<and> inRange g d t
            \<and> (\<forall>r \<in> set (g_enemies g). inRange g d r \<longrightarrow> scoreOf g d r \<le> scoreOf g d t)"
    by blast+
next
  assume h: "g_enemies g' = g_enemies g
        \<and> (\<forall>r. \<exists>fx. g_heap g' r = (g_heap g r)\<lparr>e_statusEffects := fx\<rparr>)"
  then have b: "\<forall>r. \<exists>fx. g_heap g' r = (g_heap g r)\<lparr>e_statusEffects := fx\<rparr>" by simp
  show "findBestTarget g' d = findBestTarget g d"
    using h by (simp add: findBestTarget_def bestTargetLoop_status_blind[OF b])
  show "DefenseManager_findBestTarget g' d = DefenseManager_findBestTarget g d"
    using h by (simp add: DefenseManager_findBestTarget_def managerLoop_status_blind[OF b])
qed

lemma plainGame_facts:
  "g_enemies plainGame = [0]"
  "g_heap plainGame = (\<lambda>r. unallocated)(0 := sampleEnemy\<lparr>e_x := 220, e_y := 400\<rparr>)"
  "g_heap stealthGame = (\<lambda>r. unallocated)
     (0 := applyStatusEffect 0 (sampleEnemy\<lparr>e_x := 220, e_y := 400\<rparr>) ''stealthed'' 2000)"
  by (simp_all add: plainGame_def stealthGame_def sampleGame_def Game_new_def)

theorem target_acquisition_ignores_stealth_witness:
  "list_all (\<lambda>r. e_maxHealth (g_heap plainGame r) \<noteq> 0) (g_enemies plainGame)
   \<and> g_enemies stealthGame = g_enemies plainGame
   \<and> hasStatusEffect (g_heap stealthGame 0) ''stealthed''
   \<and> \<not> hasStatusEffect (g_heap plainGame 0) ''stealthed''
   \<and> inRange plainGame sampleDefense 0
   \<and> findBestTarget plainGame sampleDefense = Some 0
   \<and> findBestTarget stealthGame sampleDefense = Some 0
   \<and> DefenseManager_findBestTarget stealthGame sampleDefense
       = DefenseManager_findBestTarget plainGame sampleDefense"
proof -
  have a: "\<forall>r \<in> set (g_enemies plainGame). e_maxHealth (g_heap plainGame r) \<noteq> 0"
    by (simp add: plainGame_facts sampleEnemy_eq)
  have b: "g_enemies stealthGame = g_enemies plainGame
      \<and> (\<forall>r. \<exists>fx. g_heap stealthGame r = (g_heap plainGame r)\<lparr>e_statusEffects := fx\<rparr>)"
  proof (intro conjI allI)
    show "g_enemies stealthGame = g_enemies plainGame"
      by (simp add: plainGame_facts stealthGame_facts)
    fix r
    show "\<exists>fx. g_heap stealthGame r = (g_heap plainGame r)\<lparr>e_statusEffects := fx\<rparr>"
    proof (cases "r = 0")
      case True
      then show ?thesis
        by (intro exI[of _ "[(''stealthed'',
              \<lparr>ef_type = ''stealthed'', ef_duration = 2000, ef_startTime = 0\<rparr>)]"])
           (simp add: plainGame_facts applyStatusEffect_def mapSet_def sampleEnemy_eq)
    next
      case False
      then show ?thesis
        by (intro exI[of _ "[]"]) (simp add: plainGame_facts unallocated_def)
    qed
  qed
  have c: "hasStatusEffect (g_heap stealthGame 0) ''stealthed''
      \<and> \<not> hasStatusEffect (g_heap plainGame 0) ''stealthed''"
    by (simp add: plainGame_facts hasStatusEffect_def has_def applyStatusEffect_def mapSet_def
        sampleEnemy_eq)
  have d: "inRange plainGame sampleDefense 0"
    by (simp add: inRange_def plainGame_facts sampleDefense_eq distance_def)
  have e: "g_enemies plainGame = [0]" by (simp add: plainGame_facts)
  from target_acquisition_ignores_stealth[of plainGame sampleDefense stealthGame] a b c d
  show ?thesis
    unfolding e by (cases "findBestTarget plainGame sampleDefense") (auto simp: list_all_iff)
qed

subsection \<open>Enemies that reach the end\<close>

text \<open>
  After its update an enemy with \<^verbatim>\<open>reachedEnd\<close> is always marked dead, so the loop of
  \<^verbatim>\<open>updateEnemies\<close> reports it through \<^verbatim>\<open>onEnemyKilled\<close> and never reaches the call of
  \<^verbatim>\<open>onEnemyReachedEnd\<close>.
\<close>

lemma checkEndReached_dead:
  "e_reachedEnd (g_heap (checkEndReached now g r) r) \<Longrightarrow> e_isDead (g_heap (checkEndReached now g r) r)"
  by (auto simp: checkEndReached_def setEnemy_def Let_def split: if_splits)

lemma updateObj_reached_end_dead:
  assumes "updateObj now rnd deltaTime g r = Inr g1" "e_reachedEnd (g_heap g1 r)"
  shows "e_isDead (g_heap g1 r)"
proof (cases "e_isDead (g_heap g r)")
  case True
  with assms(1) have "g1 = g"
    by (auto simp: updateObj_def Enemy_update_def Boss_update_def Let_def split: option.splits)
  with True show ?thesis by simp
next
  case False
  with assms(1) obtain g2 where "g1 = checkEndReached now g2 r"
    by (auto simp: updateObj_def Enemy_update_def Boss_update_def Let_def
        split: option.splits sum.splits)
  with assms(2) show ?thesis using checkEndReached_dead by blast
qed

lemma endGame_facts:
  "g_enemies endGame = [0]" "g_lives endGame = 20"
  "g_resources endGame = \<lparr>dharma = 100, bandwidth = 50, anonymity = 75\<rparr>"
  "g_path endGame = [(0, 400), (600, 400), (1200, 400)]"
  "g_heap endGame 0 = sampleEnemy\<lparr>e_x := 1199, e_y := 400, e_pathIndex := 2, e_progress := 1,
                 e_targetX := 1200, e_targetY := 400\<rparr>"
  by (simp_all add: endGame_def sampleGame_def Game_new_def INITIAL_LIVES_def INITIAL_RESOURCES_def)

lemma endGame_update:
  "\<exists>g1. updateObj now rnd deltaTime endGame 0 = Inr g1
     \<and> e_isDead (g_heap g1 0) \<and> e_reachedEnd (g_heap g1 0)
     \<and> e_reward (g_heap g1 0) = \<lparr>dharma = 5, bandwidth = 2, anonymity = 1\<rparr>
     \<and> g_lives g1 = 19 \<and> g_resources g1 = g_resources endGame \<and> g_enemies g1 = [0]
     \<and> g_score g1 = g_score endGame"
  by (simp add: updateObj_def Enemy_update_def endGame_facts sampleEnemy_eq tickEffects_def
      updateSpecialAbilities_def updateMovement_def setEnemy_def has_def
      updateErraticMovement_def updateNormalMovement_def updateTarget_def updateAI_def
      checkEndReached_def Let_def)

text \<open>
  C6, the code at the failing input. The game has 20 lives, the balances (100, 50, 75)
  and one script kiddie at full health one unit before the end of the path. After
  \<^verbatim>\<open>updateEnemies\<close>, for any clock reading, random numbers and \<^verbatim>\<open>deltaTime\<close>, the
  enemy has reached the end with its health untouched, one life is gone, the enemy is
  removed, and its reward (5, 2, 1) has been added to the balances, where the claim says
  that the reward is not credited.
\<close>

theorem reached_end_credits_reward:
  "g_lives endGame = 20
   \<and> g_resources endGame = \<lparr>dharma = 100, bandwidth = 50, anonymity = 75\<rparr>
   \<and> e_reward (g_heap endGame 0) = \<lparr>dharma = 5, bandwidth = 2, anonymity = 1\<rparr>
   \<and> \<not> e_isDead (g_heap endGame 0) \<and> e_health (g_heap endGame 0) = 20
   \<and> (\<exists>g'. updateEnemies now rnd deltaTime endGame = Inr g'
         \<and> e_reachedEnd (g_heap g' 0) \<and> e_health (g_heap g' 0) = 20
         \<and> g_lives g' = 19
         \<and> g_resources g' = \<lparr>dharma = 105, bandwidth = 52, anonymity = 76\<rparr>
         \<and> g_enemies g' = [])"
proof -
  obtain g1 where g1: "updateObj now (rnd 0) deltaTime endGame 0 = Inr g1"
     "e_isDead (g_heap g1 0)" "e_reachedEnd (g_heap g1 0)"
     "e_reward (g_heap g1 0) = \<lparr>dharma = 5, bandwidth = 2, anonymity = 1\<rparr>"
     "g_lives g1 = 19" "g_resources g1 = g_resources endGame" "g_enemies g1 = [0]"
    using endGame_update[of now "rnd 0" deltaTime] by blast
  have h: "e_health (g_heap g1 0) = 20"
    using g1(1)
    by (simp add: updateObj_def Enemy_update_def endGame_facts sampleEnemy_eq tickEffects_def
      updateSpecialAbilities_def updateMovement_def setEnemy_def has_def
      updateErraticMovement_def updateNormalMovement_def updateTarget_def updateAI_def
      checkEndReached_def Let_def) auto
  have "updateEnemies now rnd deltaTime endGame
      = Inr ((onEnemyKilled g1 (g_heap g1 0))\<lparr>g_enemies := []\<rparr>)"
    using g1 by (simp add: updateEnemies_def endGame_facts splice_def)
  then show ?thesis
    using g1 h
    by (simp add: endGame_facts sampleEnemy_eq onEnemyKilled_def addResources_def entriesOf_def
        getResource_def setResource_def)
qed

subsection \<open>Hits of a projectile\<close>

lemma collisionLoop_none: "collisionLoop now g p rs = (p, g)"
  by (induction rs) (simp_all add: circleCollision_def radiusOf_def)

lemma checkProjectileCollisions_none: "checkProjectileCollisions now g p = (p, g)"
  by (simp add: checkProjectileCollisions_def collisionLoop_none)

lemma findNewTarget_fields:
  "p_piercing (findNewTarget g p) = p_piercing p"
  "p_splash (findNewTarget g p) = p_splash p"
  "p_piercedTargets (findNewTarget g p) = p_piercedTargets p"
  by (simp_all add: findNewTarget_def)

lemma checkCollisions_none:
  "snd (checkCollisions now g p) = g"
  "p_piercing (fst (checkCollisions now g p)) = p_piercing p"
  "p_splash (fst (checkCollisions now g p)) = p_splash p"
  "p_piercedTargets (fst (checkCollisions now g p)) = p_piercedTargets p"
  by (simp_all add: checkCollisions_def radiusOf_def findNewTarget_fields split: option.splits)

lemma updateVelocity_fields:
  "p_piercing (updateVelocity g p) = p_piercing p"
  "p_splash (updateVelocity g p) = p_splash p"
  "p_piercedTargets (updateVelocity g p) = p_piercedTargets p"
  by (simp_all add: updateVelocity_def Let_def split: option.splits)

lemma Projectile_update_none:
  "snd (Projectile_update now deltaTime g p) = g"
  "p_piercing (fst (Projectile_update now deltaTime g p)) = p_piercing p"
  "p_splash (fst (Projectile_update now deltaTime g p)) = p_splash p"
  "p_piercedTargets (fst (Projectile_update now deltaTime g p)) = p_piercedTargets p"
  by (simp_all add: Projectile_update_def Let_def split_beta checkBounds_def
      checkCollisions_none updateVelocity_fields)

lemma applySpecialEffects_trace:
  "g_damageTrace (applySpecialEffects now g p t) = g_damageTrace g"
  by (simp add: applySpecialEffects_def Projectile_boostNearbyDefenses_def)

lemma hit_piercing:
  assumes "p_piercing p" "\<not> p_splash p"
  shows "p_piercing (fst (hit now g p)) \<and> \<not> p_splash (fst (hit now g p))
    \<and> ((fst (hit now g p) = p \<and> g_damageTrace (snd (hit now g p)) = g_damageTrace g)
       \<or> (\<exists>t. t \<notin> p_piercedTargets p
             \<and> p_piercedTargets (fst (hit now g p)) = insert t (p_piercedTargets p)
             \<and> g_damageTrace (snd (hit now g p)) = g_damageTrace g @ [(t, p_damage p)]))"
  using assms
  by (auto simp: hit_def Let_def applySpecialEffects_trace takeDamage_def split: option.splits)

lemma lifetime_piercing_inv:
  assumes "lifetime s s'"
    and "p_piercing (fst s)" "\<not> p_splash (fst s)"
    and "distinct (map fst (g_damageTrace (snd s)))"
    and "fst ` set (g_damageTrace (snd s)) \<subseteq> p_piercedTargets (fst s)"
  shows "p_piercing (fst s') \<and> \<not> p_splash (fst s')
    \<and> distinct (map fst (g_damageTrace (snd s')))
    \<and> fst ` set (g_damageTrace (snd s')) \<subseteq> p_piercedTargets (fst s')"
  using assms
proof (induction rule: lifetime.induct)
  case (created s)
  then show ?case by simp
next
  case (hits s p g now)
  then have inv: "p_piercing p" "\<not> p_splash p" "distinct (map fst (g_damageTrace g))"
    "fst ` set (g_damageTrace g) \<subseteq> p_piercedTargets p" by simp_all
  from hit_piercing[OF inv(1,2), of now g]
  consider "fst (hit now g p) = p" "g_damageTrace (snd (hit now g p)) = g_damageTrace g"
    | t where "t \<notin> p_piercedTargets p"
        "p_piercedTargets (fst (hit now g p)) = insert t (p_piercedTargets p)"
        "g_damageTrace (snd (hit now g p)) = g_damageTrace g @ [(t, p_damage p)]"
    by blast
  then have "distinct (map fst (g_damageTrace (snd (hit now g p))))
      \<and> fst ` set (g_damageTrace (snd (hit now g p))) \<subseteq> p_piercedTargets (fst (hit now g p))"
  proof cases
    case 1
    with inv(3,4) show ?thesis by simp
  next
    case 2
    from inv(4) 2(1) have "t \<notin> fst ` set (g_damageTrace g)" by blast
    with inv(3,4) 2 show ?thesis by auto
  qed
  with hit_piercing[OF inv(1,2), of now g] show ?case by simp
next
  case (updates s p g now deltaTime)
  then show ?case by (simp add: Projectile_update_none)
next
  case (collides s p g now)
  then show ?case by (simp add: checkProjectileCollisions_none)
next
  case (buffed s p g)
  then show ?case by (simp add: Projectile_applyBuff_def)
next
  case (retargets s p g target)
  then show ?case by simp
next
  case (others s p g g')
  then show ?case by simp
qed

lemma Projectile_new_piercing:
  assumes "p_piercing (Projectile_new g x y target damage speed color t)"
  shows "\<not> p_splash (Projectile_new g x y target damage speed color t)
    \<and> p_piercedTargets (Projectile_new g x y target damage speed color t) = {}"
  using assms
  by (auto simp: Projectile_new_def updateVelocity_fields initializeSpecialProperties_def
      split: if_splits)

lemma splashLoop_trace:
  "set (g_damageTrace g) \<subseteq> set (g_damageTrace (splashLoop now p rs g))"
proof (induction rs arbitrary: g)
  case Nil
  then show ?case by simp
next
  case (Cons r rs)
  have "set (g_damageTrace g)
      \<subseteq> set (g_damageTrace (takeDamage now g r (p_damage p * 0.5)))"
    by (auto simp: takeDamage_def)
  with Cons[of g] Cons[of "takeDamage now g r (p_damage p * 0.5)"] show ?case
    by auto
qed

lemma hit_not_piercing:
  assumes "\<not> p_piercing p"
  shows "(p_target p = Some t \<and> \<not> e_isDead (g_heap g t) \<longrightarrow>
            \<not> p_isActive (fst (hit now g p))
            \<and> (t, p_damage p) \<in> set (g_damageTrace (snd (hit now g p))))
       \<and> (g_damageTrace (snd (hit now g p)) \<noteq> g_damageTrace g \<longrightarrow>
            \<not> p_isActive (fst (hit now g p)))"
proof -
  have tr: "(t, p_damage p) \<in> set (g_damageTrace (takeDamage now g t (p_damage p)))"
    by (simp add: takeDamage_def)
  have sp: "(t, p_damage p)
      \<in> set (g_damageTrace (applySplashDamage now (takeDamage now g t (p_damage p)) p))"
    using tr splashLoop_trace[of "takeDamage now g t (p_damage p)" now p "g_enemies (takeDamage now g t (p_damage p))"]
    by (auto simp: applySplashDamage_def)
  show ?thesis
    using assms tr sp
    by (auto simp: hit_def Let_def applySpecialEffects_trace split: option.splits)
qed

lemma distinct_count_le_1: "distinct xs \<Longrightarrow> count_list xs a \<le> 1"
  by (induction xs) auto

text \<open>
  C3. A piercing projectile as the constructor creates it, in a game in which no damage
  has been recorded yet: whatever happens during its lifetime, every enemy occurs at
  most once among the receivers of its damage, and every receiver is in
  \<^verbatim>\<open>piercedTargets\<close>. A projectile that is not piercing is inactive after a call of
  \<^verbatim>\<open>hit()\<close> with a live target, which has taken the damage; and whenever a call of
  \<^verbatim>\<open>hit()\<close> applies damage at all, the projectile is inactive afterwards.
  (\<^verbatim>\<open>Game.checkProjectileCollisions\<close> would apply damage without looking at
  \<^verbatim>\<open>piercedTargets\<close>, but it never finds a collision, see \<open>radiusOf\<close>.)
\<close>

theorem projectile_damage_once:
  "(lifetime (Projectile_new g0 x y target damage speed color t, g) (p', g')
      \<and> p_piercing (Projectile_new g0 x y target damage speed color t)
      \<and> g_damageTrace g = [] \<longrightarrow>
    distinct (map fst (g_damageTrace g'))
      \<and> (\<forall>r. count_list (map fst (g_damageTrace g')) r \<le> 1)
      \<and> fst ` set (g_damageTrace g') \<subseteq> p_piercedTargets p')
   \<and> (\<not> p_piercing p \<and> p_target p = Some r \<and> \<not> e_isDead (g_heap g r) \<longrightarrow>
        \<not> p_isActive (fst (hit now g p))
        \<and> (r, p_damage p) \<in> set (g_damageTrace (snd (hit now g p))))
   \<and> (\<not> p_piercing p \<and> g_damageTrace (snd (hit now g p)) \<noteq> g_damageTrace g \<longrightarrow>
        \<not> p_isActive (fst (hit now g p)))"
proof (intro conjI impI)
  let ?p0 = "Projectile_new g0 x y target damage speed color t"
  assume h: "lifetime (?p0, g) (p', g') \<and> p_piercing ?p0 \<and> g_damageTrace g = []"
  then have new: "\<not> p_splash ?p0" "p_piercedTargets ?p0 = {}"
    using Projectile_new_piercing[of g0 x y target damage speed color t] by simp_all
  from h have l: "lifetime (?p0, g) (p', g')" by simp
  from lifetime_piercing_inv[OF l] h new
  have d: "distinct (map fst (g_damageTrace g'))"
    and s: "fst ` set (g_damageTrace g') \<subseteq> p_piercedTargets p'"
    by simp_all
  show "distinct (map fst (g_damageTrace g'))" by (rule d)
  show "\<forall>r. count_list (map fst (g_damageTrace g')) r \<le> 1"
    using distinct_count_le_1[OF d] by blast
  show "fst ` set (g_damageTrace g') \<subseteq> p_piercedTargets p'" by (rule s)
next
  assume h: "\<not> p_piercing p \<and> p_target p = Some r \<and> \<not> e_isDead (g_heap g r)"
  then have np: "\<not> p_piercing p" by simp
  from hit_not_piercing[OF np, of r g now] h
  show "\<not> p_isActive (fst (hit now g p))"
    and "(r, p_damage p) \<in> set (g_damageTrace (snd (hit now g p)))"
    by simp_all
next
  assume h: "\<not> p_piercing p \<and> g_damageTrace (snd (hit now g p)) \<noteq> g_damageTrace g"
  then have np: "\<not> p_piercing p" by simp
  from hit_not_piercing[OF np, of r g now] h
  show "\<not> p_isActive (fst (hit now g p))" by simp
qed

lemma plainGame_trace: "g_damageTrace plainGame = []"
  by (simp add: plainGame_def stealthGame_def sampleGame_def Game_new_def)

lemma piercingShot_eq:
  "piercingShot = \<lparr>p_x = 220, p_y = 300, p_target = Some 0, p_damage = 5, p_speed = 16 / 5,
     p_color = ''#0f3460'', p_type = ''encryption'', p_vx = 0, p_vy = 16 / 5, p_radius = 3,
     p_isActive = True, p_piercing = True, p_homing = False, p_splash = False,
     p_splashRadius = 0, p_piercedTargets = {}\<rparr>"
  by (simp add: piercingShot_def Projectile_new_def initializeSpecialProperties_def
      updateVelocity_def plainGame_facts sampleEnemy_eq Let_def)

lemma firewallShot_eq:
  "firewallShot = \<lparr>p_x = 220, p_y = 300, p_target = Some 0, p_damage = 5, p_speed = 5,
     p_color = ''#e94560'', p_type = ''firewall'', p_vx = 0, p_vy = 5, p_radius = 4,
     p_isActive = True, p_piercing = False, p_homing = False, p_splash = False,
     p_splashRadius = 0, p_piercedTargets = {}\<rparr>"
  by (simp add: firewallShot_def Projectile_new_def initializeSpecialProperties_def
      updateVelocity_def plainGame_facts sampleEnemy_eq Let_def)

lemma piercing_first_hit:
  "fst (hit 0 plainGame piercingShot) = piercingShot\<lparr>p_piercedTargets := {0}\<rparr>"
  "g_damageTrace (snd (hit 0 plainGame piercingShot)) = [(0, 5)]"
  "e_health (g_heap (snd (hit 0 plainGame piercingShot)) 0) = 15"
  "\<not> e_isDead (g_heap (snd (hit 0 plainGame piercingShot)) 0)"
  by (simp_all add: hit_def piercingShot_eq plainGame_facts plainGame_trace sampleEnemy_eq
      takeDamage_def takeDamageObj_def Enemy_takeDamage_def resistanceOf_def
      defaultResistance_def applySpecialEffects_def applyStatusEffect_def Let_def)

lemma piercing_second_hit:
  "hit 1 (snd (hit 0 plainGame piercingShot)) (fst (hit 0 plainGame piercingShot))
     = hit 0 plainGame piercingShot"
proof -
  have "hit 1 (snd (hit 0 plainGame piercingShot)) (piercingShot\<lparr>p_piercedTargets := {0}\<rparr>)
      = (piercingShot\<lparr>p_piercedTargets := {0}\<rparr>, snd (hit 0 plainGame piercingShot))"
    using piercing_first_hit(4) by (simp add: hit_def piercingShot_eq)
  then show ?thesis by (simp add: piercing_first_hit(1)[symmetric])
qed

lemma firewall_hit:
  "\<not> p_isActive (fst (hit 0 plainGame firewallShot))"
  "g_damageTrace (snd (hit 0 plainGame firewallShot)) = [(0, 5)]"
  by (simp_all add: hit_def firewallShot_eq plainGame_facts plainGame_trace sampleEnemy_eq
      takeDamage_def applySpecialEffects_def Let_def)

theorem projectile_damage_once_witness:
  "p_piercing piercingShot \<and> g_damageTrace plainGame = []
   \<and> \<not> e_isDead (g_heap plainGame 0)
   \<and> g_damageTrace (snd (hit 0 plainGame piercingShot)) = [(0, 5)]
   \<and> \<not> e_isDead (g_heap (snd (hit 0 plainGame piercingShot)) 0)
   \<and> g_damageTrace (snd (hit 1 (snd (hit 0 plainGame piercingShot))
                              (fst (hit 0 plainGame piercingShot)))) = [(0, 5)]
   \<and> count_list (map fst (g_damageTrace (snd (hit 1 (snd (hit 0 plainGame piercingShot))
                              (fst (hit 0 plainGame piercingShot)))))) 0 \<le> 1
   \<and> \<not> p_piercing firewallShot \<and> p_target firewallShot = Some 0
   \<and> p_isActive firewallShot
   \<and> \<not> p_isActive (fst (hit 0 plainGame firewallShot))
   \<and> (0, 5) \<in> set (g_damageTrace (snd (hit 0 plainGame firewallShot)))"
proof -
  have l0: "lifetime (piercingShot, plainGame) (piercingShot, plainGame)"
    by (rule lifetime.created)
  have l1: "lifetime (piercingShot, plainGame) (hit 0 plainGame piercingShot)"
    by (rule lifetime.hits[OF l0])
  then have "lifetime (piercingShot, plainGame)
      (fst (hit 0 plainGame piercingShot), snd (hit 0 plainGame piercingShot))" by simp
  from lifetime.hits[OF this, of 1]
  have l2: "lifetime (Projectile_new plainGame 220 300 (Some 0) 5 4 ''#0f3460'' ''encryption'',
        plainGame)
      (fst (hit 1 (snd (hit 0 plainGame piercingShot)) (fst (hit 0 plainGame piercingShot))),
       snd (hit 1 (snd (hit 0 plainGame piercingShot)) (fst (hit 0 plainGame piercingShot))))"
    by (simp add: piercingShot_def)
  have a: "p_piercing (Projectile_new plainGame 220 300 (Some 0) 5 4 ''#0f3460'' ''encryption'')"
    using piercingShot_eq by (simp add: piercingShot_def)
  have b: "\<not> p_piercing firewallShot \<and> p_target firewallShot = Some 0
      \<and> \<not> e_isDead (g_heap plainGame 0) \<and> p_isActive firewallShot \<and> p_damage firewallShot = 5"
    by (simp add: firewallShot_eq plainGame_facts sampleEnemy_eq)
  from projectile_damage_once[of plainGame 220 300 "Some 0" 5 4 "''#0f3460''" "''encryption''"
      plainGame
      "fst (hit 1 (snd (hit 0 plainGame piercingShot)) (fst (hit 0 plainGame piercingShot)))"
      "snd (hit 1 (snd (hit 0 plainGame piercingShot)) (fst (hit 0 plainGame piercingShot)))"
      firewallShot 0 0] l2 a b plainGame_trace
  have c: "(0, 5) \<in> set (g_damageTrace (snd (hit 0 plainGame firewallShot)))"
    and d: "\<not> p_isActive (fst (hit 0 plainGame firewallShot))"
    and e: "\<forall>r. count_list (map fst (g_damageTrace (snd (hit 0 plainGame piercingShot)))) r
              \<le> 1"
    by (simp_all add: piercing_second_hit)
  have pp: "p_piercing piercingShot" by (simp add: piercingShot_eq)
  from c d e pp b plainGame_trace show ?thesis
    by (simp add: piercing_second_hit piercing_first_hit(2,3,4))
qed

subsection \<open>Random numbers and the clock\<close>

lemma regularGroups_draws:
  "snd (regularGroups rnd i j ts k) = k + length ts"
proof (induction ts arbitrary: j k)
  case Nil
  then show ?case by simp
next
  case (Cons t ts)
  from Cons[of "j + 1" "k + 1"] show ?case
    by (simp add: Let_def split_beta)
qed

lemma regularGroups_cong:
  assumes "\<forall>k'. k \<le> k' \<and> k' < k + length ts \<longrightarrow> rnd k' = rnd' k'"
  shows "regularGroups rnd i j ts k = regularGroups rnd' i j ts k"
  using assms
proof (induction ts arbitrary: j k)
  case Nil
  then show ?case by simp
next
  case (Cons t ts)
  have a: "rnd k = rnd' k" using Cons.prems by simp
  have "\<forall>k'. k + 1 \<le> k' \<and> k' < k + 1 + length ts \<longrightarrow> rnd k' = rnd' k'"
    using Cons.prems by simp
  from Cons.IH[OF this] a show ?case by (simp add: Let_def)
qed

lemma waveLoop_cong:
  assumes "\<forall>k'. k \<le> k' \<and> k' < k + 6 * length (filter (\<lambda>i. i mod 5 \<noteq> 0) ws) \<longrightarrow> rnd k' = rnd' k'"
  shows "waveLoop rnd ws k = waveLoop rnd' ws k"
  using assms
proof (induction ws arbitrary: k)
  case Nil
  then show ?case by simp
next
  case (Cons i ws)
  show ?case
  proof (cases "i mod 5 = 0")
    case True
    with Cons show ?thesis by simp
  next
    case False
    have six: "length ENEMY_TYPE_KEYS = 6" by (simp add: ENEMY_TYPE_KEYS_def)
    have g: "regularGroups rnd i 0 ENEMY_TYPE_KEYS k = regularGroups rnd' i 0 ENEMY_TYPE_KEYS k"
      using Cons.prems False by (intro regularGroups_cong) (simp add: six)
    have k': "snd (regularGroups rnd' i 0 ENEMY_TYPE_KEYS k) = k + 6"
      by (simp add: regularGroups_draws six)
    have "\<forall>k'. k + 6 \<le> k' \<and> k' < k + 6 + 6 * length (filter (\<lambda>i. i mod 5 \<noteq> 0) ws)
        \<longrightarrow> rnd k' = rnd' k'"
      using Cons.prems False by simp
    from Cons.IH[OF this] g k' False show ?thesis
      by (simp add: split_beta)
  qed
qed

lemma wave_numbers: "[1 ..< maxWaves + 1] = [1, 2, 3, 4, 5, 6, 7, 8, 9, 10, 11, 12, 13, 14,
    15, 16, 17, 18, 19, 20]"
  by (simp add: maxWaves_def upt_rec)

lemma regular_waves: "length (filter (\<lambda>i. i mod 5 \<noteq> 0) [1 ..< maxWaves + 1]) = 16"
  unfolding wave_numbers by simp

lemma generateWaveConfigs_cong:
  assumes "\<forall>k < 96. rnd k = rnd' k"
  shows "generateWaveConfigs rnd = generateWaveConfigs rnd'"
proof -
  have "\<forall>k'. 0 \<le> k' \<and> k' < 0 + 6 * length (filter (\<lambda>i. i mod 5 \<noteq> 0) [1 ..< maxWaves + 1])
      \<longrightarrow> rnd k' = rnd' k'"
    unfolding regular_waves using assms by simp
  from waveLoop_cong[OF this] show ?thesis by (simp only: generateWaveConfigs_def)
qed

lemma updateStealthMovement_draw:
  assumes "(rnd 0 < 0.01) = (rnd' 0 < 0.01) \<or> has (e_statusEffects e) ''stealthed''"
  shows "updateStealthMovement g now rnd deltaTime speed e
       = updateStealthMovement g now rnd' deltaTime speed e"
  using assms by (auto simp: updateStealthMovement_def)

lemma updateFiring_clock:
  "updateFiring now deltaTime' g i = updateFiring now deltaTime g i"
  "dc_special (d_config (g_defenses g ! i)) = ''decoy''
    \<or> \<not> isValidTarget g (g_defenses g ! i) (d_target (g_defenses g ! i))
    \<or> (now - d_lastFireTime (g_defenses g ! i) < getFireRate (g_defenses g ! i)
        \<and> now' - d_lastFireTime (g_defenses g ! i) < getFireRate (g_defenses g ! i))
   \<Longrightarrow> updateFiring now deltaTime g i = Inr g \<and> updateFiring now' deltaTime g i = Inr g"
  by (auto simp: updateFiring_def Let_def)

lemma sampleSaboteur_eq:
  "sampleSaboteur = \<lparr>e_x = 0, e_y = 400, e_type = ''corporateSaboteur'', e_health = 35,
      e_maxHealth = 35, e_speed = 70, e_baseSpeed = 70, e_damage = 1,
      e_reward = \<lparr>dharma = 15, bandwidth = 8, anonymity = 5\<rparr>,
      e_pathIndex = 1, e_progress = 1 / 2, e_targetX = 600, e_targetY = 400,
      e_reachedEnd = False, e_isDead = False, e_deathTime = 0,
      e_resistance = defaultResistance,
      e_specialAbilityCooldown = 0, e_specialAbilityActive = False,
      e_specialAbilityDuration = 0,
      e_statusEffects = [], e_targetPriority = 0, e_threatLevel = 1, e_boss = None\<rparr>"
  by (simp add: sampleSaboteur_def Enemy_new_def ENEMY_TYPES_def updateTarget_def sampleGame_def
      Game_new_def)

lemma armedGame_facts:
  "g_defenses armedGame = [sampleDefense\<lparr>d_target := Some 0\<rparr>]"
  "g_enemies armedGame = [0]"
  "g_heap armedGame = (\<lambda>r. unallocated)(0 := sampleEnemy\<lparr>e_x := 220, e_y := 400\<rparr>)"
  "g_projectiles armedGame = []"
  by (simp_all add: armedGame_def plainGame_def stealthGame_def sampleGame_def Game_new_def)

lemma stealth_roll:
  "hasStatusEffect (updateStealthMovement sampleGame 0 drawsLow 16 70 sampleSaboteur) ''stealthed''"
  "\<not> hasStatusEffect (updateStealthMovement sampleGame 0 drawsHigh 16 70 sampleSaboteur) ''stealthed''"
  by (simp_all add: updateStealthMovement_def updateNormalMovement_def sampleSaboteur_eq
      drawsLow_def drawsHigh_def has_def hasStatusEffect_def applyStatusEffect_def mapSet_def
      Let_def)

lemma firing_early: "updateFiring 1000 16 armedGame 0 = Inr armedGame"
  by (simp add: updateFiring_def armedGame_facts sampleDefense_eq getFireRate_def hasBuff_def
      hasDebuff_def has_def Let_def)

lemma firing_late:
  "updateFiring 2000 16 armedGame 0 =
     Inr (armedGame\<lparr>g_projectiles :=
              [Projectile_new armedGame 220 300 (Some 0) 25 4 ''#0f3460'' ''encryption''],
            g_defenses := [sampleDefense\<lparr>d_target := Some 0, d_lastFireTime := 2000\<rparr>]\<rparr>)"
  by (simp add: updateFiring_def fire_def applyFireEffects_def scrambleNearbyEnemies_def
      isValidTarget_def armedGame_facts sampleDefense_eq sampleEnemy_eq
      getFireRate_def getDamage_def getProjectileSpeed_def hasBuff_def
      hasDebuff_def has_def distance_def Let_def)

lemma wave7_counts:
  "map gr_count (w_enemies (generateWaveConfigs drawsLow ! 6)) = [6, 6, 6, 6, 6]"
  "map gr_count (w_enemies (generateWaveConfigs drawsHigh ! 6)) = [7, 7, 7, 7, 7]"
  unfolding generateWaveConfigs_def wave_numbers
  by (simp_all add: ENEMY_TYPE_KEYS_def drawsLow_def drawsHigh_def Let_def)

text \<open>
  C2, as the spec states it, fails: with the same state, the same \<^verbatim>\<open>deltaTime\<close> and
  the same inputs, the result depends on what \<^verbatim>\<open>Math.random()\<close> and \<^verbatim>\<open>Date.now()\<close>
  return. A saboteur becomes stealthed with the draw 0.005 and not with 0.5; a defense
  that last fired at 0 with fire rate 1500 does nothing at clock reading 1000 and fires
  at 2000; wave 7 has groups of 6 enemies with draws of 0.005 and of 7 with draws of 0.5.
\<close>

theorem tick_environment_counterexample:
  "hasStatusEffect (updateStealthMovement sampleGame 0 drawsLow 16 70 sampleSaboteur) ''stealthed''
   \<and> \<not> hasStatusEffect (updateStealthMovement sampleGame 0 drawsHigh 16 70 sampleSaboteur)
         ''stealthed''
   \<and> updateFiring 1000 16 armedGame 0 = Inr armedGame
   \<and> updateFiring 2000 16 armedGame 0 =
       Inr (armedGame\<lparr>g_projectiles :=
              [Projectile_new armedGame 220 300 (Some 0) 25 4 ''#0f3460'' ''encryption''],
            g_defenses := [sampleDefense\<lparr>d_target := Some 0, d_lastFireTime := 2000\<rparr>]\<rparr>)
   \<and> updateFiring 2000 16 armedGame 0 \<noteq> updateFiring 1000 16 armedGame 0
   \<and> map gr_count (w_enemies (generateWaveConfigs drawsLow ! 6)) = [6, 6, 6, 6, 6]
   \<and> map gr_count (w_enemies (generateWaveConfigs drawsHigh ! 6)) = [7, 7, 7, 7, 7]
   \<and> generateWaveConfigs drawsLow \<noteq> generateWaveConfigs drawsHigh"
proof -
  have "g_projectiles (armedGame\<lparr>g_projectiles :=
              [Projectile_new armedGame 220 300 (Some 0) 25 4 ''#0f3460'' ''encryption''],
            g_defenses := [sampleDefense\<lparr>d_target := Some 0, d_lastFireTime := 2000\<rparr>]\<rparr>)
      \<noteq> g_projectiles armedGame"
    by (simp add: armedGame_facts)
  then have "armedGame\<lparr>g_projectiles :=
              [Projectile_new armedGame 220 300 (Some 0) 25 4 ''#0f3460'' ''encryption''],
            g_defenses := [sampleDefense\<lparr>d_target := Some 0, d_lastFireTime := 2000\<rparr>]\<rparr>
      \<noteq> armedGame"
    by (metis (full_types))
  then have a: "updateFiring 2000 16 armedGame 0 \<noteq> updateFiring 1000 16 armedGame 0"
    unfolding firing_early firing_late by simp
  have b: "generateWaveConfigs drawsLow \<noteq> generateWaveConfigs drawsHigh"
    using wave7_counts by auto
  from a b show ?thesis
    by (simp add: stealth_roll firing_early firing_late wave7_counts)
qed

text \<open>
  C2, amended. The updates are functions of the state, \<^verbatim>\<open>deltaTime\<close>, the inputs and
  the values of \<^verbatim>\<open>Math.random()\<close> and \<^verbatim>\<open>Date.now()\<close>, and two runs agree where these
  values agree as far as they are read. The stealth movement reads one draw, only
  through the test below 0.01 and not at all while the enemy is stealthed. Firing does
  not depend on \<^verbatim>\<open>deltaTime\<close>; it leaves the game as it is, whatever the clock, for a
  decoy, without a valid target, and while the clock readings are less than the fire
  rate after the last shot. The wave plan is the same for two sources of random numbers
  that agree on the first 96 draws.
\<close>

theorem tick_depends_on_environment:
  "((rnd 0 < 0.01) = (rnd' 0 < 0.01) \<or> has (e_statusEffects e) ''stealthed'' \<longrightarrow>
      updateStealthMovement g now rnd deltaTime speed e
        = updateStealthMovement g now rnd' deltaTime speed e)
   \<and> updateFiring now deltaTime' g i = updateFiring now deltaTime g i
   \<and> (dc_special (d_config (g_defenses g ! i)) = ''decoy''
        \<or> \<not> isValidTarget g (g_defenses g ! i) (d_target (g_defenses g ! i))
        \<or> (now - d_lastFireTime (g_defenses g ! i) < getFireRate (g_defenses g ! i)
            \<and> now' - d_lastFireTime (g_defenses g ! i) < getFireRate (g_defenses g ! i)) \<longrightarrow>
      updateFiring now deltaTime g i = Inr g \<and> updateFiring now' deltaTime g i = Inr g)
   \<and> ((\<forall>k < 96. rnd k = rnd' k) \<longrightarrow> generateWaveConfigs rnd = generateWaveConfigs rnd')"
proof (intro conjI impI)
  assume "(rnd 0 < 0.01) = (rnd' 0 < 0.01) \<or> has (e_statusEffects e) ''stealthed''"
  then show "updateStealthMovement g now rnd deltaTime speed e
        = updateStealthMovement g now rnd' deltaTime speed e"
    by (rule updateStealthMovement_draw)
next
  show "updateFiring now deltaTime' g i = updateFiring now deltaTime g i"
    by (rule updateFiring_clock(1))
next
  assume h: "dc_special (d_config (g_defenses g ! i)) = ''decoy''
        \<or> \<not> isValidTarget g (g_defenses g ! i) (d_target (g_defenses g ! i))
        \<or> (now - d_lastFireTime (g_defenses g ! i) < getFireRate (g_defenses g ! i)
            \<and> now' - d_lastFireTime (g_defenses g ! i) < getFireRate (g_defenses g ! i))"
  from updateFiring_clock(2)[OF h]
  show "updateFiring now deltaTime g i = Inr g" and "updateFiring now' deltaTime g i = Inr g"
    by simp_all
next
  assume "\<forall>k < 96. rnd k = rnd' k"
  then show "generateWaveConfigs rnd = generateWaveConfigs rnd'"
    by (rule generateWaveConfigs_cong)
qed

theorem tick_depends_on_environment_witness:
  "(drawsHigh 0 < 0.01) = (drawsMixed 0 < 0.01)
   \<and> drawsHigh 96 \<noteq> drawsMixed 96
   \<and> updateStealthMovement armedGame 1000 drawsHigh 16 70 sampleSaboteur
       = updateStealthMovement armedGame 1000 drawsMixed 16 70 sampleSaboteur
   \<and> updateFiring 1000 33 armedGame 0 = updateFiring 1000 16 armedGame 0
   \<and> 1000 - d_lastFireTime (g_defenses armedGame ! 0) < getFireRate (g_defenses armedGame ! 0)
   \<and> 1200 - d_lastFireTime (g_defenses armedGame ! 0) < getFireRate (g_defenses armedGame ! 0)
   \<and> updateFiring 1000 16 armedGame 0 = Inr armedGame
   \<and> updateFiring 1200 16 armedGame 0 = Inr armedGame
   \<and> generateWaveConfigs drawsHigh = generateWaveConfigs drawsMixed"
proof -
  have a: "(drawsHigh 0 < 0.01) = (drawsMixed 0 < 0.01)" "drawsHigh 96 \<noteq> drawsMixed 96"
    by (simp_all add: drawsHigh_def drawsMixed_def)
  have b: "1000 - d_lastFireTime (g_defenses armedGame ! 0) < getFireRate (g_defenses armedGame ! 0)
      \<and> 1200 - d_lastFireTime (g_defenses armedGame ! 0) < getFireRate (g_defenses armedGame ! 0)"
    by (simp add: armedGame_facts sampleDefense_eq getFireRate_def hasBuff_def hasDebuff_def
        has_def)
  have c: "\<forall>k < 96. drawsHigh k = drawsMixed k"
    by (simp add: drawsHigh_def drawsMixed_def)
  from tick_depends_on_environment[where rnd = drawsHigh and rnd' = drawsMixed
      and e = sampleSaboteur and g = armedGame and now = 1000 and now' = 1200
      and deltaTime = 16 and deltaTime' = 33 and speed = 70 and i = 0] a b c
  show ?thesis by simp
qed

end
